theory Spec2Isabelle
  imports Complex_Main
begin

section \<open>Numbers and the page count\<close>

text \<open>
  The scripts count pages and rows with JavaScript numbers. The counts are integers in
  the safe range, where addition, subtraction and comparison are exact, so they are
  modelled as \<^typ>\<open>int\<close>. A quotient of two such integers is modelled as the exact
  rational; dividing by zero gives \<open>Infinity\<close>, \<open>-Infinity\<close> or \<open>NaN\<close> as in the
  language, and \<open>Math.max\<close> and the comparisons treat them as the language does.
\<close>

datatype jsnum = Fin int | PosInf | NaN

text \<open>
  \<^verbatim>\<open>function computeTotalPages(total, pageSize) {
    return Math.max(1, Math.ceil(total / pageSize));
  }\<close>
  With \<open>pageSize = 0\<close> the quotient is \<open>NaN\<close> for \<open>total = 0\<close> (and \<open>Math.max(1, NaN)\<close>
  is \<open>NaN\<close>), \<open>Infinity\<close> for a positive total and \<open>-Infinity\<close> for a negative one
  (and \<open>Math.max(1, -Infinity)\<close> is 1).
\<close>

definition computeTotalPages :: "int \<Rightarrow> int \<Rightarrow> jsnum" where
  "computeTotalPages tot pageSize =
     (if pageSize = 0 then (if tot = 0 then NaN else if 0 < tot then PosInf else Fin 1)
      else Fin (max 1 (ceiling (rat_of_int tot / rat_of_int pageSize))))"


fun js_ge :: "int \<Rightarrow> jsnum \<Rightarrow> bool" where
  "js_ge a (Fin b) = (b \<le> a)"
| "js_ge a PosInf = False"
| "js_ge a NaN = False"

section \<open>Values of the language\<close>

text \<open>
  What a response carries and what a property read gives: \<open>undefined\<close>, \<open>null\<close>, booleans,
  numbers, strings, arrays and plain objects (the decoded JSON values, plus \<open>undefined\<close>
  for an absent property). An object is the list of its own properties in creation order,
  each name once. Strings are byte strings (the UTF-8 text). Numbers are the integers:
  the scripts do arithmetic only on page numbers and row counts.
\<close>

datatype jsval =
    Undefined
  | Null
  | Bool bool
  | Num int
  | Str string
  | Arr "jsval list"
  | Obj "(string \<times> jsval) list"

text \<open>
  What a \<open>throw\<close> carries: a \<open>TypeError\<close> raised by the language itself, or an error object
  built with a message (\<open>new Error(msg)\<close>, or the rejection of \<open>fetch\<close> and \<open>res.json()\<close>,
  whose message the environment supplies). The text of a language-raised \<open>TypeError\<close>
  differs between engines and is never empty; it is represented by its name.
\<close>

datatype exn = TypeError | Error string

fun message :: "exn \<Rightarrow> string" where
  "message TypeError = ''TypeError''"
| "message (Error m) = m"

fun truthy :: "jsval \<Rightarrow> bool" where
  "truthy Undefined = False"
| "truthy Null = False"
| "truthy (Bool b) = b"
| "truthy (Num n) = (n \<noteq> 0)"
| "truthy (Str s) = (s \<noteq> [])"
| "truthy (Arr xs) = True"
| "truthy (Obj kvs) = True"

text \<open>\<open>a || b\<close> and \<open>a ?? b\<close>.\<close>

definition js_or :: "jsval \<Rightarrow> jsval \<Rightarrow> jsval" where
  "js_or a b = (if truthy a then a else b)"

definition nullish :: "jsval \<Rightarrow> bool" where
  "nullish v = (v = Undefined \<or> v = Null)"

definition js_coalesce :: "jsval \<Rightarrow> jsval \<Rightarrow> jsval" where
  "js_coalesce a b = (if nullish a then b else a)"

text \<open>
  \<open>v.name\<close>, for the names the scripts read from payload values (\<open>items\<close>, \<open>summary\<close>,
  \<open>type\<close>, \<open>nodes\<close>, \<open>properties\<close>, \<open>sentiment\<close> and so on): none of them is inherited
  from a prototype, so the read finds an own property of an object or \<open>undefined\<close>;
  on \<open>undefined\<close> and \<open>null\<close> it throws.
\<close>

fun get_prop :: "jsval \<Rightarrow> string \<Rightarrow> exn + jsval" where
  "get_prop Undefined k = Inl TypeError"
| "get_prop Null k = Inl TypeError"
| "get_prop (Obj kvs) k = Inr (case map_of kvs k of None \<Rightarrow> Undefined | Some v \<Rightarrow> v)"
| "get_prop (Bool b) k = Inr Undefined"
| "get_prop (Num n) k = Inr Undefined"
| "get_prop (Str s) k = Inr Undefined"
| "get_prop (Arr xs) k = Inr Undefined"

text \<open>\<open>v?.name\<close>: \<open>undefined\<close> when \<open>v\<close> is \<open>undefined\<close> or \<open>null\<close>.\<close>

definition opt_prop :: "jsval \<Rightarrow> string \<Rightarrow> jsval" where
  "opt_prop v k = (case get_prop v k of Inl e \<Rightarrow> Undefined | Inr x \<Rightarrow> x)"

text \<open>
  \<open>v[0]\<close> on a truthy value: the first element of an array, the first character of a
  string, the property \<open>"0"\<close> of an object. The first character of a string is its first
  UTF-16 unit; in the UTF-8 text that is the first byte sequence, as long as the character
  is in the basic plane (one to three bytes). A string that starts outside the basic plane
  gives half a character, which has no UTF-8 text: there the model gives the whole
  character.
\<close>

definition utf8_length :: "char \<Rightarrow> nat" where
  "utf8_length c = (let n = (of_char c :: nat) in
     if n < 192 then 1 else if n < 224 then 2 else if n < 240 then 3 else 4)"

fun index0 :: "jsval \<Rightarrow> jsval" where
  "index0 (Arr xs) = (case xs of [] \<Rightarrow> Undefined | x # _ \<Rightarrow> x)"
| "index0 (Str s) = (case s of [] \<Rightarrow> Undefined | c # _ \<Rightarrow> Str (take (utf8_length c) s))"
| "index0 (Obj kvs) = (case map_of kvs ''0'' of None \<Rightarrow> Undefined | Some v \<Rightarrow> v)"
| "index0 v = Undefined"

subsection \<open>Conversion to string\<close>

definition digit_char :: "nat \<Rightarrow> char" where
  "digit_char n = ''0123456789'' ! n"

fun string_of_nat :: "nat \<Rightarrow> string" where
  "string_of_nat n =
     (if n < 10 then [digit_char n] else string_of_nat (n div 10) @ [digit_char (n mod 10)])"

declare string_of_nat.simps [simp del]

definition string_of_int :: "int \<Rightarrow> string" where
  "string_of_int i =
     (if i < 0 then CHR ''-'' # string_of_nat (nat (- i)) else string_of_nat (nat i))"

text \<open>
  \<open>String(v)\<close>, a template literal and the assignment to \<open>textContent\<close> convert alike. An
  array joins its elements with commas, \<open>undefined\<close> and \<open>null\<close> elements giving the empty
  string. A plain object answers \<open>[object Object]\<close>, unless it has an own property
  \<open>toString\<close>: a decoded value is never callable, the inherited \<open>valueOf\<close> returns the
  object itself, and the conversion throws.
\<close>

fun ToString :: "jsval \<Rightarrow> exn + string"
  and join_elems :: "jsval list \<Rightarrow> exn + string" where
  "ToString Undefined = Inr ''undefined''"
| "ToString Null = Inr ''null''"
| "ToString (Bool b) = Inr (if b then ''true'' else ''false'')"
| "ToString (Num n) = Inr (string_of_int n)"
| "ToString (Str s) = Inr s"
| "ToString (Arr xs) = join_elems xs"
| "ToString (Obj kvs) =
     (if ''toString'' \<in> fst ` set kvs then Inl TypeError else Inr ''[object Object]'')"
| "join_elems [] = Inr []"
| "join_elems (x # xs) =
     (case (if x = Undefined \<or> x = Null then Inr [] else ToString x) of
        Inl e \<Rightarrow> Inl e
      | Inr s \<Rightarrow>
          (if xs = [] then Inr s
           else (case join_elems xs of Inl e \<Rightarrow> Inl e | Inr t \<Rightarrow> Inr (s @ '','' @ t))))"

section \<open>Query strings\<close>

text \<open>
  \<open>URLSearchParams\<close> holds a list of name and value pairs; \<open>toString()\<close> serialises it as
  \<open>application/x-www-form-urlencoded\<close>: letters, digits and \<open>* - . _\<close> stand for
  themselves, a space becomes \<open>+\<close>, every other byte becomes \<open>%XX\<close> in upper-case
  hexadecimal; a pair is \<open>name=value\<close> and pairs are joined with \<open>&\<close>.
\<close>

type_synonym params = "(string \<times> string) list"

definition is_alnum :: "char \<Rightarrow> bool" where
  "is_alnum c = (let n = (of_char c :: nat) in
     (48 \<le> n \<and> n \<le> 57) \<or> (65 \<le> n \<and> n \<le> 90) \<or> (97 \<le> n \<and> n \<le> 122))"

definition url_safe :: "char \<Rightarrow> bool" where
  "url_safe c = (is_alnum c \<or> c = CHR ''*'' \<or> c = CHR ''-'' \<or> c = CHR ''.'' \<or> c = CHR ''_'')"

definition hex_digit :: "nat \<Rightarrow> char" where
  "hex_digit n = ''0123456789ABCDEF'' ! n"

definition encode_byte :: "char \<Rightarrow> string" where
  "encode_byte c =
     (if url_safe c then [c]
      else if c = CHR '' '' then ''+''
      else [CHR ''%'', hex_digit (of_char c div 16), hex_digit (of_char c mod 16)])"

definition form_encode :: "string \<Rightarrow> string" where
  "form_encode s = concat (map encode_byte s)"

fun serialize :: "params \<Rightarrow> string" where
  "serialize [] = []"
| "serialize [(k, v)] = form_encode k @ ''='' @ form_encode v"
| "serialize ((k, v) # p # ps) = form_encode k @ ''='' @ form_encode v @ ''&'' @ serialize (p # ps)"

text \<open>
  The reading of such a string, as the receiving side does it: split at every \<open>&\<close>, drop
  empty pieces, split each piece at its first \<open>=\<close>, turn \<open>+\<close> into a space and decode
  \<open>%XX\<close>.
\<close>

definition is_hex :: "char \<Rightarrow> bool" where
  "is_hex c = (let n = (of_char c :: nat) in
     (48 \<le> n \<and> n \<le> 57) \<or> (65 \<le> n \<and> n \<le> 70) \<or> (97 \<le> n \<and> n \<le> 102))"

definition hex_val :: "char \<Rightarrow> nat" where
  "hex_val c = (let n = (of_char c :: nat) in
     if n \<le> 57 then n - 48 else if n \<le> 70 then n - 55 else n - 87)"

fun form_decode :: "string \<Rightarrow> string" where
  "form_decode [] = []"
| "form_decode (c # cs) =
     (if c = CHR ''+'' then CHR '' '' # form_decode cs
      else if c = CHR ''%'' then
        (case cs of
           a # b # rest \<Rightarrow>
             if is_hex a \<and> is_hex b then char_of (16 * hex_val a + hex_val b) # form_decode rest
             else c # form_decode cs
         | _ \<Rightarrow> c # form_decode cs)
      else c # form_decode cs)"

fun split_on :: "char \<Rightarrow> string \<Rightarrow> string list" where
  "split_on d [] = [[]]"
| "split_on d (c # cs) =
     (if c = d then [] # split_on d cs
      else (case split_on d cs of [] \<Rightarrow> [[c]] | w # ws \<Rightarrow> (c # w) # ws))"

definition parse_pair :: "string \<Rightarrow> string \<times> string" where
  "parse_pair s =
     (form_decode (takeWhile (\<lambda>c. c \<noteq> CHR ''='') s),
      form_decode (drop 1 (dropWhile (\<lambda>c. c \<noteq> CHR ''='') s)))"

definition parse_query :: "string \<Rightarrow> params" where
  "parse_query s = map parse_pair (filter (\<lambda>w. w \<noteq> []) (split_on CHR ''&'' s))"

text \<open>
  \<open>encodeURIComponent\<close>: letters, digits and \<open>- _ . ! ~ * ' ( )\<close> stand for themselves,
  every other byte becomes \<open>%XX\<close>.
\<close>

definition uri_unreserved :: "char \<Rightarrow> bool" where
  "uri_unreserved c = (is_alnum c \<or> c \<in> set ''-_.!~*()'' \<or> c = char_of (39 :: nat))"

definition encodeURIComponent :: "string \<Rightarrow> string" where
  "encodeURIComponent s =
     concat (map (\<lambda>c. if uri_unreserved c then [c]
                      else [CHR ''%'', hex_digit (of_char c div 16), hex_digit (of_char c mod 16)]) s)"

section \<open>The dataset browser: its state and its query\<close>

text \<open>
  \<^verbatim>\<open>const state = { dataset: null, page: 1, pageSize: 25, ticker: "", quarter: "", search: "" };\<close>
  \<open>state.total\<close> is not there until the first page of rows has arrived. Dataset names,
  filter values and the search text are strings; \<open>dataset\<close> is \<open>null\<close> before the list of
  datasets has arrived.
\<close>

record state =
  dataset :: "string option"
  page :: int
  pageSize :: int
  ticker :: string
  quarter :: string
  search :: string
  total_rows :: "int option"

definition init_state :: state where
  "init_state = \<lparr> dataset = None, page = 1, pageSize = 25, ticker = [], quarter = [],
                  search = [], total_rows = None \<rparr>"

text \<open>
  \<^verbatim>\<open>function buildQueryString() {
    const params = new URLSearchParams({
      dataset: state.dataset, page: String(state.page), page_size: String(state.pageSize) });
    if (state.ticker) params.append("ticker", state.ticker);
    if (state.quarter) params.append("quarter", state.quarter);
    if (state.search) params.append("search", state.search);
    return params.toString();
  }\<close>
  The constructor converts each value to a string, so a \<open>null\<close> dataset is sent as the
  text \<open>null\<close>.
\<close>

definition dataset_text :: "string option \<Rightarrow> string" where
  "dataset_text d = (case d of None \<Rightarrow> ''null'' | Some n \<Rightarrow> n)"

definition append_if :: "string \<Rightarrow> string \<Rightarrow> params \<Rightarrow> params" where
  "append_if k v ps = (if v \<noteq> [] then ps @ [(k, v)] else ps)"

definition query_params :: "state \<Rightarrow> params" where
  "query_params s =
     append_if ''search'' (search s)
       (append_if ''quarter'' (quarter s)
          (append_if ''ticker'' (ticker s)
             [(''dataset'', dataset_text (dataset s)),
              (''page'', string_of_int (page s)),
              (''page_size'', string_of_int (pageSize s))]))"

definition buildQueryString :: "state \<Rightarrow> string" where
  "buildQueryString s = serialize (query_params s)"

section \<open>The sample-calls browser: its state and its query\<close>

text \<open>
  \<^verbatim>\<open>const callState = { page: 1, pageSize: 10, exchange: "", sector: "", pred: "",
    retMin: "", retMax: "", sort: "date" };\<close>
  \<open>callState.maxPage\<close> is not there until the first response has arrived.
\<close>

record callState =
  call_page :: int
  call_pageSize :: int
  exchange :: string
  sector :: string
  pred :: string
  retMin :: string
  retMax :: string
  call_sort :: string
  maxPage :: "jsnum option"

definition init_callState :: callState where
  "init_callState = \<lparr> call_page = 1, call_pageSize = 10, exchange = [], sector = [],
     pred = [], retMin = [], retMax = [], call_sort = ''date'', maxPage = None \<rparr>"

text \<open>The query of \<open>loadCalls\<close>, as it stands before the \<open>try\<close>.\<close>

definition call_params :: "callState \<Rightarrow> params" where
  "call_params s =
     append_if ''return_max'' (retMax s)
       (append_if ''return_min'' (retMin s)
          (append_if ''pred_label'' (pred s)
             (append_if ''sector'' (sector s)
                (append_if ''exchange'' (exchange s)
                   [(''page'', string_of_int (call_page s)),
                    (''page_size'', string_of_int (call_pageSize s)),
                    (''sort_by'', call_sort s)]))))"

definition call_query :: "callState \<Rightarrow> string" where
  "call_query s = serialize (call_params s)"

text \<open>What an optional filter adds to a query: nothing when its value is empty.\<close>

definition filter_param :: "string \<Rightarrow> string \<Rightarrow> params" where
  "filter_param k v = (if v = [] then [] else [(k, v)])"

section \<open>The row detail views\<close>

text \<open>
  What a detail container holds after a render: a text (\<open>textContent = ...\<close>), the
  collapsible sections and the summary block of the analysis view, or the list of the
  baseline view. A container is \<open>None\<close> when the page has no such element, and the
  list of its children otherwise. A render function returns the container as it leaves
  it and the exception it throws, if any: what was appended before a \<open>throw\<close> stays.
\<close>

record fact =
  fact_metric :: string
  fact_value :: "string option"
  fact_reason :: "string option"

datatype node =
    TextNode string
  | Details bool string "fact list"
  | SummaryBlock string
  | ListNode "string list"

type_synonym container = "node list option"

subsection \<open>The analysis view\<close>

text \<open>
  \<open>const groups = {}\<close> is a plain object used as a map from type to list. Its own
  properties are kept in creation order. A read \<open>groups[t]\<close> that finds no own property
  goes on to \<open>Object.prototype\<close>, whose property names are listed here; each of them
  reads as a function (or, for \<open>__proto__\<close>, as the prototype itself): truthy, and with
  no \<open>push\<close>.
\<close>

definition proto_names :: "string list" where
  "proto_names =
     [''constructor'', ''__defineGetter__'', ''__defineSetter__'', ''hasOwnProperty'',
      ''__lookupGetter__'', ''__lookupSetter__'', ''isPrototypeOf'', ''propertyIsEnumerable'',
      ''toString'', ''valueOf'', ''__proto__'', ''toLocaleString'']"

type_synonym groups = "(string \<times> jsval list) list"

text \<open>
  \<^verbatim>\<open>items.forEach((item) => {
    const t = item.type || "Other";
    if (!groups[t]) groups[t] = [];
    groups[t].push(item);
  });\<close>
  \<open>item.type\<close> throws on a \<open>null\<close> item; \<open>groups[t]\<close> converts \<open>t\<close> to a property name;
  \<open>groups[t].push\<close> is \<open>undefined\<close> when \<open>groups[t]\<close> was inherited, and the call throws.
\<close>

fun push_item :: "string \<Rightarrow> jsval \<Rightarrow> groups \<Rightarrow> groups" where
  "push_item k item [] = []"
| "push_item k item ((k', l) # g) =
     (if k' = k then (k', l @ [item]) # g else (k', l) # push_item k item g)"

definition group_step :: "jsval \<Rightarrow> groups \<Rightarrow> exn + groups" where
  "group_step item g =
     (case get_prop item ''type'' of
        Inl e \<Rightarrow> Inl e
      | Inr ty \<Rightarrow>
          (case ToString (js_or ty (Str ''Other'')) of
             Inl e \<Rightarrow> Inl e
           | Inr k \<Rightarrow>
               if k \<in> fst ` set g then Inr (push_item k item g)
               else if k \<in> set proto_names then Inl TypeError
               else Inr (g @ [(k, [item])])))"

fun group_items :: "jsval list \<Rightarrow> groups \<Rightarrow> exn + groups" where
  "group_items [] g = Inr g"
| "group_items (item # items) g =
     (case group_step item g of Inl e \<Rightarrow> Inl e | Inr g' \<Rightarrow> group_items items g')"

text \<open>
  \<open>Object.entries(groups)\<close> lists the own properties whose names are array
  indices (the decimal text of an integer from 0 to \<open>2^32 - 2\<close>) first, in ascending
  numeric order, and then the other properties in creation order.
\<close>

definition is_digit :: "char \<Rightarrow> bool" where
  "is_digit c = (let n = (of_char c :: nat) in 48 \<le> n \<and> n \<le> 57)"

definition int_of_digits :: "string \<Rightarrow> int" where
  "int_of_digits s = foldl (\<lambda>a c. 10 * a + (of_char c - 48)) 0 s"

definition is_array_index :: "string \<Rightarrow> bool" where
  "is_array_index k =
     (k \<noteq> [] \<and> list_all is_digit k \<and> (k = ''0'' \<or> hd k \<noteq> CHR ''0'')
      \<and> int_of_digits k < 4294967295)"

definition entries :: "groups \<Rightarrow> groups" where
  "entries g =
     sort_key (\<lambda>(k, l). int_of_digits k) (filter (\<lambda>(k, l). is_array_index k) g)
     @ filter (\<lambda>(k, l). \<not> is_array_index k) g"

text \<open>
  One fact of a section:
  \<^verbatim>\<open>const metric = item.metric || "Metric";
  const value = item.value || "";
  const reason = item.reason || "";
  metricEl.textContent = metric;  valueEl.textContent = value;
  header.appendChild(metricEl);
  if (value) { header.appendChild(document.createTextNode(" . ")); header.appendChild(valueEl); }
  if (reason) { reasonEl.textContent = reason; fact.appendChild(reasonEl); }\<close>
\<close>

definition render_fact :: "jsval \<Rightarrow> exn + fact" where
  "render_fact item =
     (case get_prop item ''metric'' of Inl e \<Rightarrow> Inl e | Inr m \<Rightarrow>
      case get_prop item ''value'' of Inl e \<Rightarrow> Inl e | Inr v \<Rightarrow>
      case get_prop item ''reason'' of Inl e \<Rightarrow> Inl e | Inr r \<Rightarrow>
      let metric = js_or m (Str ''Metric''); val = js_or v (Str []); reason = js_or r (Str [])
      in case ToString metric of Inl e \<Rightarrow> Inl e | Inr mt \<Rightarrow>
         case ToString val of Inl e \<Rightarrow> Inl e | Inr vt \<Rightarrow>
         if truthy reason then
           (case ToString reason of Inl e \<Rightarrow> Inl e | Inr rt \<Rightarrow>
              Inr \<lparr> fact_metric = mt,
                    fact_value = (if truthy val then Some vt else None),
                    fact_reason = Some rt \<rparr>)
         else Inr \<lparr> fact_metric = mt,
                    fact_value = (if truthy val then Some vt else None),
                    fact_reason = None \<rparr>)"

fun render_facts :: "jsval list \<Rightarrow> exn + fact list" where
  "render_facts [] = Inr []"
| "render_facts (item # items) =
     (case render_fact item of Inl e \<Rightarrow> Inl e | Inr f \<Rightarrow>
      case render_facts items of Inl e \<Rightarrow> Inl e | Inr fs \<Rightarrow> Inr (f # fs))"

definition section_title :: "string \<Rightarrow> nat \<Rightarrow> string" where
  "section_title ty n = ty @ '' ('' @ string_of_nat n @ '')''"

text \<open>
  \<^verbatim>\<open>Object.entries(groups).forEach(([type, list], idx) => {
    const detailsEl = document.createElement("details");
    if (idx === 0) detailsEl.open = true;
    summary.textContent = `${type} (${list.length})`;
    ... the facts ...
    container.appendChild(detailsEl);
  });\<close>
\<close>

fun render_groups :: "groups \<Rightarrow> nat \<Rightarrow> node list \<Rightarrow> node list \<times> exn option" where
  "render_groups [] idx c = (c, None)"
| "render_groups ((ty, l) # es) idx c =
     (case render_facts l of
        Inl e \<Rightarrow> (c, Some e)
      | Inr fs \<Rightarrow> render_groups es (idx + 1) (c @ [Details (idx = 0) (section_title ty (length l)) fs]))"

definition no_analysis :: string where
  "no_analysis = ''No multi-agent analysis in this row.''"

definition could_not_parse :: string where
  "could_not_parse = ''Could not parse multi-agent analysis.''"

text \<open>
  \<open>renderAgentDetails(row)\<close>. \<open>JSON.parse\<close> belongs to the language, not to the scripts:
  it is the parameter \<open>parse\<close>, which gives the decoded value or the \<open>SyntaxError\<close>.
  \<^verbatim>\<open>const raw = row.parsed_and_analyzed_facts;
  if (!raw) { container.textContent = "No multi-agent analysis in this row."; return; }
  let parsed;
  try { parsed = typeof raw === "string" ? JSON.parse(raw) : raw; }
  catch (err) { container.textContent = "Could not parse multi-agent analysis."; return; }
  const items = Array.isArray(parsed.items) ? parsed.items : [];
  const summaryText = parsed.summary || "";
  if (!items.length && !summaryText) { ... "No multi-agent analysis in this row." ... }\<close>
\<close>

definition decode_raw :: "(string \<Rightarrow> exn + jsval) \<Rightarrow> jsval \<Rightarrow> exn + jsval" where
  "decode_raw parse raw = (case raw of Str s \<Rightarrow> parse s | _ \<Rightarrow> Inr raw)"

definition items_of :: "jsval \<Rightarrow> jsval list" where
  "items_of v = (case v of Arr xs \<Rightarrow> xs | _ \<Rightarrow> [])"

definition render_summary :: "jsval \<Rightarrow> node list \<Rightarrow> node list \<times> exn option" where
  "render_summary summaryText c =
     (if truthy summaryText then
        (case ToString summaryText of
           Inl e \<Rightarrow> (c, Some e)
         | Inr t \<Rightarrow> (c @ [SummaryBlock t], None))
      else (c, None))"

definition render_parsed :: "jsval \<Rightarrow> node list \<times> exn option" where
  "render_parsed parsed =
     (case get_prop parsed ''items'' of
        Inl e \<Rightarrow> ([], Some e)
      | Inr its \<Rightarrow>
     (case get_prop parsed ''summary'' of
        Inl e \<Rightarrow> ([], Some e)
      | Inr sm \<Rightarrow>
          let items = items_of its; summaryText = js_or sm (Str []) in
          if items = [] \<and> \<not> truthy summaryText then ([TextNode no_analysis], None)
          else
            (case group_items items [] of
               Inl e \<Rightarrow> ([], Some e)
             | Inr g \<Rightarrow>
                 (case render_groups (entries g) 0 [] of
                    (c, Some e) \<Rightarrow> (c, Some e)
                  | (c, None) \<Rightarrow> render_summary summaryText c))))"

definition renderAgentDetails ::
  "(string \<Rightarrow> exn + jsval) \<Rightarrow> container \<Rightarrow> jsval \<Rightarrow> container \<times> exn option" where
  "renderAgentDetails parse cont row =
     (case cont of
        None \<Rightarrow> (None, None)
      | Some old \<Rightarrow>
          (case get_prop row ''parsed_and_analyzed_facts'' of
             Inl e \<Rightarrow> (Some [], Some e)
           | Inr raw \<Rightarrow>
               if \<not> truthy raw then (Some [TextNode no_analysis], None)
               else
                 (case decode_raw parse raw of
                    Inl e \<Rightarrow> (Some [TextNode could_not_parse], None)
                  | Inr parsed \<Rightarrow>
                      (case render_parsed parsed of (c, r) \<Rightarrow> (Some c, r)))))"

subsection \<open>The baseline view\<close>

definition no_baseline :: string where
  "no_baseline = ''No baseline sentiment metrics in this dataset.''"

definition baseline_empty :: string where
  "baseline_empty = ''Baseline columns detected but no values on this row.''"

text \<open>
  \<^verbatim>\<open>const add = (labelText, value) => {
    if (value === undefined || value === null || value === "") return;
    li.textContent = `${labelText}: ${value}`;
    list.appendChild(li);
  };\<close>
\<close>

definition blank :: "jsval \<Rightarrow> bool" where
  "blank v = (v = Undefined \<or> v = Null \<or> v = Str [])"

definition add :: "string \<Rightarrow> jsval \<Rightarrow> string list \<Rightarrow> exn + string list" where
  "add labelText v lis =
     (if blank v then Inr lis
      else (case ToString v of Inl e \<Rightarrow> Inl e | Inr t \<Rightarrow> Inr (lis @ [labelText @ '': '' @ t])))"

fun add_all :: "(string \<times> jsval) list \<Rightarrow> string list \<Rightarrow> exn + string list" where
  "add_all [] lis = Inr lis"
| "add_all ((l, v) # rest) lis =
     (case add l v lis of Inl e \<Rightarrow> Inl e | Inr lis' \<Rightarrow> add_all rest lis')"

text \<open>
  The seven labelled values read from the row, in the order of the calls of \<open>add\<close>; the
  last is \<open>row.future_3bday_cum_return ?? row.actual_return\<close>.
\<close>

definition candidates :: "jsval \<Rightarrow> exn + (string \<times> jsval) list" where
  "candidates row =
     (case get_prop row ''sentiment'' of Inl e \<Rightarrow> Inl e | Inr sentiment \<Rightarrow>
      case get_prop row ''polarity'' of Inl e \<Rightarrow> Inl e | Inr polarity \<Rightarrow>
      case get_prop row ''positive_count'' of Inl e \<Rightarrow> Inl e | Inr pos \<Rightarrow>
      case get_prop row ''negative_count'' of Inl e \<Rightarrow> Inl e | Inr neg \<Rightarrow>
      case get_prop row ''label'' of Inl e \<Rightarrow> Inl e | Inr lab \<Rightarrow>
      case get_prop row ''pred'' of Inl e \<Rightarrow> Inl e | Inr prd \<Rightarrow>
      case get_prop row ''future_3bday_cum_return'' of Inl e \<Rightarrow> Inl e | Inr fut \<Rightarrow>
      case get_prop row ''actual_return'' of Inl e \<Rightarrow> Inl e | Inr act \<Rightarrow>
        Inr [(''Sentiment'', sentiment), (''Polarity'', polarity), (''Positive count'', pos),
             (''Negative count'', neg), (''Label'', lab), (''Pred'', prd),
             (''Future 3-day return / Actual return'', js_coalesce fut act)])"

text \<open>
  \<^verbatim>\<open>const hasBaseline = Array.isArray(lastColumns) &&
    (lastColumns.includes("sentiment") || lastColumns.includes("positive_count") ||
     lastColumns.includes("polarity"));\<close>
  \<open>lastColumns\<close> is the column list of the last page of rows, or the empty list: always
  an array.
\<close>

definition hasBaseline :: "string list \<Rightarrow> bool" where
  "hasBaseline cols =
     (''sentiment'' \<in> set cols \<or> ''positive_count'' \<in> set cols \<or> ''polarity'' \<in> set cols)"

text \<open>
  \<open>renderBaselineDetails(row)\<close>: nothing without the container; the text for a dataset
  without baseline columns; otherwise the list of the candidates that \<open>add\<close> takes, or
  the text for a row without values when the list stays empty
  (\<open>if (!list.childNodes.length)\<close>). The list is attached to the container last, so an
  exception leaves the container empty.
\<close>

definition renderBaselineDetails ::
  "string list \<Rightarrow> container \<Rightarrow> jsval \<Rightarrow> container \<times> exn option" where
  "renderBaselineDetails lastColumns cont row =
     (case cont of
        None \<Rightarrow> (None, None)
      | Some old \<Rightarrow>
          if \<not> hasBaseline lastColumns then (Some [TextNode no_baseline], None)
          else
            (case candidates row of
               Inl e \<Rightarrow> (Some [], Some e)
             | Inr cs \<Rightarrow>
                 (case add_all cs [] of
                    Inl e \<Rightarrow> (Some [], Some e)
                  | Inr lis \<Rightarrow>
                      if lis = [] then (Some [TextNode baseline_empty], None)
                      else (Some [ListNode lis], None))))"

section \<open>The graph view\<close>

text \<open>
  What \<open>renderGraph\<close> hands to the drawing library: for each node \<open>id\<close>, \<open>label\<close>,
  \<open>group\<close> and \<open>title\<close>, for each edge \<open>id\<close>, \<open>from\<close>, \<open>to\<close>, \<open>label\<close> and \<open>arrows\<close>.
  The title is the text \<open>JSON.stringify(n.properties || {}, null, 2)\<close>; the model keeps the
  value that is printed. The library's data sets are the lists they are built from.
\<close>

record vnode =
  node_id :: jsval
  node_label :: jsval
  node_group :: jsval
  node_title :: jsval

record vedge =
  edge_id :: jsval
  edge_from :: jsval
  edge_to :: jsval
  edge_label :: jsval
  arrows :: string

record network =
  net_nodes :: "vnode list"
  net_edges :: "vedge list"

text \<open>\<open>a && b\<close>.\<close>

definition js_and :: "jsval \<Rightarrow> jsval \<Rightarrow> jsval" where
  "js_and a b = (if truthy a then b else a)"

text \<open>
  \<^verbatim>\<open>const label = n.properties?.ticker || n.properties?.symbol || n.properties?.metric ||
    n.properties?.quarter || (n.labels && n.labels[0]) || n.id;
  return { id: n.id, label, group: (n.labels && n.labels[0]) || "Node",
           title: JSON.stringify(n.properties || {}, null, 2) };\<close>
\<close>

definition first_label :: "jsval \<Rightarrow> jsval" where
  "first_label labels = js_and labels (index0 labels)"

definition derive_label :: "jsval \<Rightarrow> jsval \<Rightarrow> jsval \<Rightarrow> jsval" where
  "derive_label props labels ident =
     js_or (opt_prop props ''ticker'')
       (js_or (opt_prop props ''symbol'')
          (js_or (opt_prop props ''metric'')
             (js_or (opt_prop props ''quarter'')
                (js_or (first_label labels) ident))))"

definition node_of :: "jsval \<Rightarrow> exn + vnode" where
  "node_of n =
     (case get_prop n ''properties'' of Inl e \<Rightarrow> Inl e | Inr props \<Rightarrow>
      case get_prop n ''labels'' of Inl e \<Rightarrow> Inl e | Inr labels \<Rightarrow>
      case get_prop n ''id'' of Inl e \<Rightarrow> Inl e | Inr ident \<Rightarrow>
        Inr \<lparr> node_id = ident,
              node_label = derive_label props labels ident,
              node_group = js_or (first_label labels) (Str ''Node''),
              node_title = js_or props (Obj []) \<rparr>)"

text \<open>
  \<^verbatim>\<open>edgesRaw.map((e) => ({ id: e.id, from: e.source, to: e.target,
                           label: e.type || "", arrows: "to" }))\<close>
\<close>

definition edge_of :: "jsval \<Rightarrow> exn + vedge" where
  "edge_of e =
     (case get_prop e ''id'' of Inl x \<Rightarrow> Inl x | Inr ident \<Rightarrow>
      case get_prop e ''source'' of Inl x \<Rightarrow> Inl x | Inr src \<Rightarrow>
      case get_prop e ''target'' of Inl x \<Rightarrow> Inl x | Inr tgt \<Rightarrow>
      case get_prop e ''type'' of Inl x \<Rightarrow> Inl x | Inr ty \<Rightarrow>
        Inr \<lparr> edge_id = ident, edge_from = src, edge_to = tgt,
              edge_label = js_or ty (Str []), arrows = ''to'' \<rparr>)"

fun map_exn :: "('a \<Rightarrow> exn + 'b) \<Rightarrow> 'a list \<Rightarrow> exn + 'b list" where
  "map_exn f [] = Inr []"
| "map_exn f (x # xs) =
     (case f x of Inl e \<Rightarrow> Inl e | Inr y \<Rightarrow>
      case map_exn f xs of Inl e \<Rightarrow> Inl e | Inr ys \<Rightarrow> Inr (y # ys))"

text \<open>
  \<open>renderGraph(data)\<close>: nothing happens without the container; \<open>data.nodes\<close> and
  \<open>data.edges\<close> count as empty unless they are arrays; a network that exists gets the
  new data (\<open>setData\<close>), otherwise one is created with them. The result is the network
  after the call and the exception thrown, if any.
\<close>

definition renderGraph ::
  "bool \<Rightarrow> network option \<Rightarrow> jsval \<Rightarrow> network option \<times> exn option" where
  "renderGraph has_container graphNetwork data =
     (if \<not> has_container then (graphNetwork, None)
      else
        (case get_prop data ''nodes'' of Inl e \<Rightarrow> (graphNetwork, Some e) | Inr ns \<Rightarrow>
         case get_prop data ''edges'' of Inl e \<Rightarrow> (graphNetwork, Some e) | Inr es \<Rightarrow>
         case map_exn node_of (items_of ns) of Inl e \<Rightarrow> (graphNetwork, Some e) | Inr nodes \<Rightarrow>
         case map_exn edge_of (items_of es) of Inl e \<Rightarrow> (graphNetwork, Some e) | Inr edges \<Rightarrow>
           (Some \<lparr> net_nodes = nodes, net_edges = edges \<rparr>, None)))"

section \<open>Requests and responses\<close>

text \<open>
  A \<open>fetch\<close> either rejects (a transport failure, with the environment's message) or
  gives a response with a status; \<open>res.ok\<close> holds for a status from 200 to 299. The body
  is seen as text by \<open>res.text()\<close> and as a decoded value by \<open>res.json()\<close>, which rejects
  with a message when the body is not JSON. A decoded payload has the shape of the
  endpoint's contract: an absent or \<open>null\<close> member is \<open>None\<close>.
\<close>

datatype 'a response =
    Rejected string
  | Response int string "string + 'a"

definition ok :: "int \<Rightarrow> bool" where
  "ok status = (200 \<le> status \<and> status \<le> 299)"

text \<open>\<open>err.message || fallback\<close>.\<close>

definition or_text :: "string \<Rightarrow> string \<Rightarrow> string" where
  "or_text m fallback = (if m \<noteq> [] then m else fallback)"

record rows_data =
  d_columns :: "string list option"
  d_rows :: "jsval list option"
  d_page :: int
  d_page_size :: int
  d_total :: int

record options_data =
  d_tickers :: "string list option"
  d_quarters :: "string list option"

text \<open>The requests a script has issued, oldest first, each with its URL.\<close>

datatype request = Get string

text \<open>\<open>s.trim()\<close>, for the white space of ASCII.\<close>

definition is_space :: "char \<Rightarrow> bool" where
  "is_space c = (let n = (of_char c :: nat) in n = 32 \<or> (9 \<le> n \<and> n \<le> 13))"

definition trim :: "string \<Rightarrow> string" where
  "trim s = rev (dropWhile is_space (rev (dropWhile is_space s)))"

section \<open>The dataset browser\<close>

text \<open>
  The script's variables (\<open>state\<close>, \<open>lastColumns\<close>, \<open>graphNetwork\<close>), the elements of
  the page it reads and writes, and what it has sent out: the texts passed to \<open>alert\<close>,
  the errors passed to \<open>console.error\<close>, the requests issued, and the exceptions that no
  handler caught. The page has the selects, the search box, the buttons and the table;
  the two detail containers and the graph container may be missing, and the script checks
  for them.
\<close>

record select =
  sel_options :: "(string \<times> string) list"
  sel_value :: string

datatype tr = EmptyRow nat string | DataRow "string list" jsval

record app =
  st :: state
  lastColumns :: "string list"
  graphNetwork :: "network option"
  datasetSelect :: select
  tickerSelect :: select
  quarterSelect :: select
  searchInput :: string
  tableHead :: "string list"
  tableBody :: "tr list"
  pageInfo :: string
  prevDisabled :: bool
  nextDisabled :: bool
  rowDetails :: "jsval option"
  agentDetails :: container
  baselineDetails :: container
  graphContainer :: bool
  alerts :: "string list"
  console :: "exn list"
  requests :: "request list"
  uncaught :: "exn list"

definition alert :: "string \<Rightarrow> app \<Rightarrow> app" where
  "alert m a = a\<lparr> alerts := alerts a @ [m] \<rparr>"

definition fetch :: "string \<Rightarrow> app \<Rightarrow> app" where
  "fetch url a = a\<lparr> requests := requests a @ [Get url] \<rparr>"

text \<open>\<open>!state.dataset\<close>: the dataset is \<open>null\<close> or the empty string.\<close>

definition no_dataset :: "state \<Rightarrow> bool" where
  "no_dataset s = (case dataset s of None \<Rightarrow> True | Some d \<Rightarrow> d = [])"

text \<open>
  An \<open>async\<close> function runs up to its first \<open>await\<close> when it is called, and the rest
  runs when the awaited response is there. \<open>loadPage\<close> and \<open>fetchOptions\<close> up to their
  \<open>await fetch(...)\<close>:
  \<^verbatim>\<open>async function loadPage() {
    if (!state.dataset) return;
    try { const qs = buildQueryString(); const res = await fetch(`/api/rows?${qs}`); ...\<close>
  \<^verbatim>\<open>async function fetchOptions() {
    if (!state.dataset) return;
    try { const res = await fetch(`/api/options?dataset=${encodeURIComponent(state.dataset)}`); ...\<close>
\<close>

definition loadPage :: "app \<Rightarrow> app" where
  "loadPage a =
     (if no_dataset (st a) then a else fetch (''/api/rows?'' @ buildQueryString (st a)) a)"

definition fetchOptions :: "app \<Rightarrow> app" where
  "fetchOptions a =
     (if no_dataset (st a) then a
      else fetch (''/api/options?dataset='' @ encodeURIComponent (dataset_text (dataset (st a)))) a)"

text \<open>
  \<open>renderOptions(selectEl, options, placeholder)\<close> empties the select and fills it with
  the placeholder (value \<open>""\<close>) and the options; the select then shows its first option,
  so its value is \<open>""\<close>.
\<close>

definition renderOptions :: "string list \<Rightarrow> string \<Rightarrow> select" where
  "renderOptions opts placeholder =
     \<lparr> sel_options = ([], placeholder) # map (\<lambda>v. (v, v)) opts, sel_value = [] \<rparr>"

text \<open>
  The rest of \<open>fetchOptions\<close>, when the response is there:
  \<^verbatim>\<open>  if (!res.ok) throw new Error("Failed to load options");
    const data = await res.json();
    renderOptions(elements.tickerSelect, data.tickers || [], "All tickers");
    renderOptions(elements.quarterSelect, data.quarters || [], "All quarters");
    state.ticker = "";
    state.quarter = "";
  } catch (err) { console.error(err); }\<close>
\<close>

definition console_error :: "exn \<Rightarrow> app \<Rightarrow> app" where
  "console_error e a = a\<lparr> console := console a @ [e] \<rparr>"

definition list_or_empty :: "'a list option \<Rightarrow> 'a list" where
  "list_or_empty x = (case x of None \<Rightarrow> [] | Some xs \<Rightarrow> xs)"

fun fetchOptions_done :: "options_data response \<Rightarrow> app \<Rightarrow> app" where
  "fetchOptions_done (Rejected m) a = console_error (Error m) a"
| "fetchOptions_done (Response status body js) a =
     (if \<not> ok status then console_error (Error ''Failed to load options'') a
      else
        (case js of
           Inl m \<Rightarrow> console_error (Error m) a
         | Inr data \<Rightarrow>
             a\<lparr> tickerSelect := renderOptions (list_or_empty (d_tickers data)) ''All tickers'',
                quarterSelect := renderOptions (list_or_empty (d_quarters data)) ''All quarters'',
                st := (st a)\<lparr> ticker := [], quarter := [] \<rparr> \<rparr>))"

text \<open>
  \<open>renderTable(columns, rows)\<close>: the header is rebuilt from the columns; no rows give
  one placeholder row; otherwise each row gives its cells,
  \<open>value === null || value === undefined ? "" : String(value)\<close> with \<open>value = row[col]\<close>,
  and is appended when its cells are built. Column names are taken not to be names that
  a row inherits (such as \<open>constructor\<close>).
\<close>

definition cell_text :: "jsval \<Rightarrow> string \<Rightarrow> exn + string" where
  "cell_text row col =
     (case get_prop row col of
        Inl e \<Rightarrow> Inl e
      | Inr v \<Rightarrow> if nullish v then Inr [] else ToString v)"

fun render_rows :: "string list \<Rightarrow> jsval list \<Rightarrow> app \<Rightarrow> app \<times> exn option" where
  "render_rows cols [] a = (a, None)"
| "render_rows cols (row # rows) a =
     (case map_exn (cell_text row) cols of
        Inl e \<Rightarrow> (a, Some e)
      | Inr cells \<Rightarrow> render_rows cols rows (a\<lparr> tableBody := tableBody a @ [DataRow cells row] \<rparr>))"

definition renderTable :: "string list \<Rightarrow> jsval list \<Rightarrow> app \<Rightarrow> app \<times> exn option" where
  "renderTable cols rows a =
     (let a1 = a\<lparr> tableHead := cols, tableBody := [] \<rparr> in
      if rows = [] then
        (a1\<lparr> tableBody := [EmptyRow (if length cols = 0 then 1 else length cols)
                                       ''No rows found.''] \<rparr>, None)
      else render_rows cols rows a1)"

text \<open>
  \<^verbatim>\<open>function updatePagination({ page, page_size, total }) {
    const totalPages = computeTotalPages(total, page_size);
    elements.pageInfo.textContent = `Page ${page} of ${totalPages} - ${total} rows`;
    elements.prevPage.disabled = page <= 1;
    elements.nextPage.disabled = page >= totalPages;
  }\<close>
  (the dash of the text is a long one).
\<close>

fun jsnum_text :: "jsnum \<Rightarrow> string" where
  "jsnum_text (Fin n) = string_of_int n"
| "jsnum_text PosInf = ''Infinity''"
| "jsnum_text NaN = ''NaN''"

definition long_dash :: string where
  "long_dash = map char_of [226, 128, 148 :: nat]"

definition page_info_text :: "int \<Rightarrow> jsnum \<Rightarrow> int \<Rightarrow> string" where
  "page_info_text p totalPages tot =
     ''Page '' @ string_of_int p @ '' of '' @ jsnum_text totalPages @ '' '' @ long_dash @ '' ''
       @ string_of_int tot @ '' rows''"

definition updatePagination :: "int \<Rightarrow> int \<Rightarrow> int \<Rightarrow> app \<Rightarrow> app" where
  "updatePagination p page_size tot a =
     (let totalPages = computeTotalPages tot page_size in
      a\<lparr> pageInfo := page_info_text p totalPages tot,
         prevDisabled := (p \<le> 1),
         nextDisabled := js_ge p totalPages \<rparr>)"

text \<open>
  The rest of \<open>loadPage\<close>, when the response is there:
  \<^verbatim>\<open>  if (!res.ok) {
      const errorText = await res.text();
      throw new Error(errorText || `Request failed: ${res.status}`);
    }
    const data = await res.json();
    state.page = data.page;  state.pageSize = data.page_size;  state.total = data.total;
    lastColumns = data.columns || [];
    renderTable(data.columns || [], data.rows || []);
    updatePagination({ page: data.page, page_size: data.page_size, total: data.total });
  } catch (err) { alert(err.message || "Failed to load data."); }\<close>
\<close>

fun loadPage_done :: "rows_data response \<Rightarrow> app \<Rightarrow> app" where
  "loadPage_done (Rejected m) a = alert (or_text m ''Failed to load data.'') a"
| "loadPage_done (Response status body js) a =
     (if \<not> ok status then
        alert (or_text (or_text body (''Request failed: '' @ string_of_int status))
                 ''Failed to load data.'') a
      else
        (case js of
           Inl m \<Rightarrow> alert (or_text m ''Failed to load data.'') a
         | Inr data \<Rightarrow>
             (let a1 = a\<lparr> st := (st a)\<lparr> page := d_page data, pageSize := d_page_size data,
                                         total_rows := Some (d_total data) \<rparr>,
                           lastColumns := list_or_empty (d_columns data) \<rparr>
              in case renderTable (list_or_empty (d_columns data)) (list_or_empty (d_rows data)) a1 of
                   (a2, Some e) \<Rightarrow> alert (or_text (message e) ''Failed to load data.'') a2
                 | (a2, None) \<Rightarrow> updatePagination (d_page data) (d_page_size data) (d_total data) a2)))"

text \<open>
  \<open>fetchDatasets\<close> is called once, when the page is ready; the rest of it and
  \<open>populateDatasets\<close>:
  \<^verbatim>\<open>  if (!res.ok) throw new Error(`Failed to load datasets: ${res.status}`);
    const data = await res.json();
    populateDatasets(data.datasets || []);
  } catch (err) { alert(err.message || "Could not load datasets."); }\<close>
  \<^verbatim>\<open>function populateDatasets(datasets) {
    elements.datasetSelect.innerHTML = "";
    if (datasets.length === 0) { ... a disabled option "No datasets found" ...; return; }
    datasets.forEach((name) => { ... an option ... });
    state.dataset = datasets[0];
    elements.datasetSelect.value = state.dataset;
    fetchOptions();
    loadPage();
  }\<close>
\<close>

definition populateDatasets :: "string list \<Rightarrow> app \<Rightarrow> app" where
  "populateDatasets datasets a =
     (case datasets of
        [] \<Rightarrow> a\<lparr> datasetSelect := \<lparr> sel_options = [([], ''No datasets found'')], sel_value = [] \<rparr> \<rparr>
      | d # ds \<Rightarrow>
          loadPage (fetchOptions
            (a\<lparr> datasetSelect := \<lparr> sel_options = map (\<lambda>v. (v, v)) datasets, sel_value = d \<rparr>,
                st := (st a)\<lparr> dataset := Some d \<rparr> \<rparr>)))"

fun fetchDatasets_done :: "string list option response \<Rightarrow> app \<Rightarrow> app" where
  "fetchDatasets_done (Rejected m) a = alert (or_text m ''Could not load datasets.'') a"
| "fetchDatasets_done (Response status body js) a =
     (if \<not> ok status then
        alert (or_text (''Failed to load datasets: '' @ string_of_int status)
                 ''Could not load datasets.'') a
      else
        (case js of
           Inl m \<Rightarrow> alert (or_text m ''Could not load datasets.'') a
         | Inr data \<Rightarrow> populateDatasets (list_or_empty data) a))"


fun loadGraph_done :: "jsval response \<Rightarrow> app \<Rightarrow> app" where
  "loadGraph_done (Rejected m) a = alert (or_text m ''Could not load graph.'') a"
| "loadGraph_done (Response status body js) a =
     (if \<not> ok status then
        alert (or_text (or_text body (''Graph request failed: '' @ string_of_int status))
                 ''Could not load graph.'') a
      else
        (case js of
           Inl m \<Rightarrow> alert (or_text m ''Could not load graph.'') a
         | Inr data \<Rightarrow>
             (case renderGraph (graphContainer a) (graphNetwork a) data of
                (g, Some e) \<Rightarrow> alert (or_text (message e) ''Could not load graph.'') (a\<lparr> graphNetwork := g \<rparr>)
              | (g, None) \<Rightarrow> a\<lparr> graphNetwork := g \<rparr>)))"

text \<open>
  \<^verbatim>\<open>function showRowDetails(row) {
    elements.rowDetails.textContent = JSON.stringify(row, null, 2);
    renderAgentDetails(row);
    renderBaselineDetails(row);
  }\<close>
  The text shown in \<open>rowDetails\<close> is the printed row; the model keeps the row. An
  exception of \<open>renderAgentDetails\<close> leaves \<open>showRowDetails\<close> before the baseline view
  is rendered, and nothing catches it.
\<close>

definition showRowDetails :: "(string \<Rightarrow> exn + jsval) \<Rightarrow> jsval \<Rightarrow> app \<Rightarrow> app" where
  "showRowDetails parse row a =
     (let a1 = a\<lparr> rowDetails := Some row \<rparr> in
      case renderAgentDetails parse (agentDetails a1) row of
        (c, Some e) \<Rightarrow> a1\<lparr> agentDetails := c, uncaught := uncaught a1 @ [e] \<rparr>
      | (c, None) \<Rightarrow>
          (case renderBaselineDetails (lastColumns a1) (baselineDetails a1) row of
             (b, Some e) \<Rightarrow> a1\<lparr> agentDetails := c, baselineDetails := b, uncaught := uncaught a1 @ [e] \<rparr>
           | (b, None) \<Rightarrow> a1\<lparr> agentDetails := c, baselineDetails := b \<rparr>))"

subsection \<open>The events\<close>


text \<open>
  \<^verbatim>\<open>elements.datasetSelect.addEventListener("change", () => {
    state.dataset = elements.datasetSelect.value;
    state.page = 1;
    fetchOptions();
    loadPage();
  });\<close>
\<close>

definition datasetChange :: "string \<Rightarrow> app \<Rightarrow> app" where
  "datasetChange v a =
     loadPage (fetchOptions
       (a\<lparr> datasetSelect := (datasetSelect a)\<lparr> sel_value := v \<rparr>,
           st := (st a)\<lparr> dataset := Some v, page := 1 \<rparr> \<rparr>))"

text \<open>
  \<^verbatim>\<open>elements.applyFilters.addEventListener("click", () => {
    state.ticker = elements.tickerSelect.value;
    state.quarter = elements.quarterSelect.value;
    state.search = elements.searchInput.value.trim();
    state.page = 1;
    loadPage();
  });\<close>
\<close>

definition applyFilters :: "app \<Rightarrow> app" where
  "applyFilters a =
     loadPage (a\<lparr> st := (st a)\<lparr> ticker := sel_value (tickerSelect a),
                                  quarter := sel_value (quarterSelect a),
                                  search := trim (searchInput a),
                                  page := 1 \<rparr> \<rparr>)"


definition total_or_0 :: "int option \<Rightarrow> int" where
  "total_or_0 t = (case t of None \<Rightarrow> 0 | Some n \<Rightarrow> n)"



text \<open>Choosing in a filter select and typing in the search box change the element only.\<close>

definition chooseTicker :: "string \<Rightarrow> app \<Rightarrow> app" where
  "chooseTicker v a = a\<lparr> tickerSelect := (tickerSelect a)\<lparr> sel_value := v \<rparr> \<rparr>"




text \<open>
  The page when the script has started (\<open>DOMContentLoaded\<close>): the initial state, empty
  elements, and \<open>fetchDatasets()\<close> under way.
\<close>

definition init_app :: app where
  "init_app =
     \<lparr> st = init_state, lastColumns = [], graphNetwork = None,
       datasetSelect = \<lparr> sel_options = [], sel_value = [] \<rparr>,
       tickerSelect = \<lparr> sel_options = [], sel_value = [] \<rparr>,
       quarterSelect = \<lparr> sel_options = [], sel_value = [] \<rparr>,
       searchInput = [], tableHead = [], tableBody = [], pageInfo = [],
       prevDisabled = False, nextDisabled = False, rowDetails = None,
       agentDetails = Some [], baselineDetails = Some [], graphContainer = True,
       alerts = [], console = [], requests = [Get ''/api/datasets''], uncaught = [] \<rparr>"


section \<open>The sample-calls browser\<close>

text \<open>
  \<open>callState\<close>, the values of the filter elements, the table body, the page text, and
  what the script has sent out. The cells of a row are texts built from the row (a
  percentage among them); the model keeps the rows whose cells were built.
\<close>

datatype call_table = NoData | CallRows "jsval list"

record calls_data =
  c_rows :: "jsval list option"
  c_total :: "int option"

record callApp =
  cst :: callState
  exchange_el :: string
  sector_el :: string
  pred_el :: string
  retMin_el :: string
  retMax_el :: string
  sort_el :: string
  call_tableBody :: call_table
  call_pageInfo :: string
  call_alerts :: "string list"
  call_requests :: "request list"

text \<open>\<open>loadCalls\<close> up to its \<open>await fetch(`/api/sample-calls?${params.toString()}`)\<close>.\<close>

definition loadCalls :: "callApp \<Rightarrow> callApp" where
  "loadCalls a =
     a\<lparr> call_requests := call_requests a @ [Get (''/api/sample-calls?'' @ call_query (cst a))] \<rparr>"

definition call_alert :: "string \<Rightarrow> callApp \<Rightarrow> callApp" where
  "call_alert m a = a\<lparr> call_alerts := call_alerts a @ [m] \<rparr>"

text \<open>
  \<^verbatim>\<open>function renderCalls(rows) {
    callElements.tableBody.innerHTML = "";
    if (!rows || rows.length === 0) { ... one cell "No data." ...; return; }
    rows.forEach((row) => {
      const tr = document.createElement("tr");
      const cols = [ row.ticker, row.company || "", row.date || "", row.sector || "",
        row.true_return != null ? `${(row.true_return * 100).toFixed(2)}%` : "",
        row.pred_label || "", row.is_correct ? "Y" : "N" ];
      cols.forEach((val) => { ... td.textContent = val; ... });
      ... a.href = `call.html?id=${encodeURIComponent(row.id)}`; ...
      callElements.tableBody.appendChild(tr);
    });
  }\<close>
  A row is appended when its cells are built. Building them throws a \<open>TypeError\<close> when
  the row is \<open>null\<close> (at \<open>row.ticker\<close>) and when one of the values that is converted
  to a string or to a number cannot be converted; a value converts to a number exactly
  when it converts to a string. The rows before the one that throws stay in the table.
\<close>

definition call_row_values :: "jsval \<Rightarrow> jsval list" where
  "call_row_values row =
     [opt_prop row ''ticker'',
      js_or (opt_prop row ''company'') (Str []),
      js_or (opt_prop row ''date'') (Str []),
      js_or (opt_prop row ''sector'') (Str []),
      (if nullish (opt_prop row ''true_return'') then Str [] else opt_prop row ''true_return''),
      js_or (opt_prop row ''pred_label'') (Str []),
      opt_prop row ''id'']"

definition call_row :: "jsval \<Rightarrow> exn + jsval" where
  "call_row row =
     (case get_prop row ''ticker'' of
        Inl e \<Rightarrow> Inl e
      | Inr t \<Rightarrow>
          (case map_exn ToString (call_row_values row) of
             Inl e \<Rightarrow> Inl e
           | Inr texts \<Rightarrow> Inr row))"

fun call_rows :: "jsval list \<Rightarrow> jsval list \<Rightarrow> jsval list \<times> exn option" where
  "call_rows [] built = (built, None)"
| "call_rows (row # rows) built =
     (case call_row row of
        Inl e \<Rightarrow> (built, Some e)
      | Inr r \<Rightarrow> call_rows rows (built @ [r]))"

definition renderCalls :: "jsval list \<Rightarrow> call_table \<times> exn option" where
  "renderCalls rows =
     (if rows = [] then (NoData, None)
      else (case call_rows rows [] of (built, e) \<Rightarrow> (CallRows built, e)))"

text \<open>
  The rest of \<open>loadCalls\<close>:
  \<^verbatim>\<open>  if (!res.ok) throw new Error(`Failed: ${res.status}`);
    const data = await res.json();
    renderCalls(data.rows || []);
    const total = data.total || 0;
    const maxPage = Math.max(1, Math.ceil(total / callState.pageSize));
    callState.maxPage = maxPage;
    callElements.pageInfo.textContent = `Page ${callState.page} of ${maxPage} - ${total} rows`;
  } catch (err) { alert(err.message || "Failed to load calls"); }\<close>
  The expression for \<open>maxPage\<close> is the body of \<open>computeTotalPages\<close>. An exception of
  \<open>renderCalls\<close> is caught: it is shown in an alert, and \<open>maxPage\<close> and the page text
  stay as they were.
\<close>

fun loadCalls_done :: "calls_data response \<Rightarrow> callApp \<Rightarrow> callApp" where
  "loadCalls_done (Rejected m) a = call_alert (or_text m ''Failed to load calls'') a"
| "loadCalls_done (Response status body js) a =
     (if \<not> ok status then
        call_alert (or_text (''Failed: '' @ string_of_int status) ''Failed to load calls'') a
      else
        (case js of
           Inl m \<Rightarrow> call_alert (or_text m ''Failed to load calls'') a
         | Inr data \<Rightarrow>
             (case renderCalls (list_or_empty (c_rows data)) of
                (t, Some e) \<Rightarrow>
                  call_alert (or_text (message e) ''Failed to load calls'')
                    (a\<lparr> call_tableBody := t \<rparr>)
              | (t, None) \<Rightarrow>
                  (let tot = total_or_0 (c_total data);
                       mp = computeTotalPages tot (call_pageSize (cst a))
                   in a\<lparr> call_tableBody := t,
                         cst := (cst a)\<lparr> maxPage := Some mp \<rparr>,
                         call_pageInfo := page_info_text (call_page (cst a)) mp tot \<rparr>))))"








text \<open>The page when the script has started: \<open>loadCalls()\<close> is under way.\<close>

definition init_callApp :: callApp where
  "init_callApp =
     loadCalls \<lparr> cst = init_callState, exchange_el = [], sector_el = [], pred_el = [],
                 retMin_el = [], retMax_el = [], sort_el = ''date'', call_tableBody = NoData,
                 call_pageInfo = [], call_alerts = [], call_requests = [] \<rparr>"


section \<open>The call detail page\<close>

text \<open>
  \<^verbatim>\<open>document.addEventListener("DOMContentLoaded", () => {
    const id = getParam("id");
    if (!id) { alert("Missing id"); return; }
    loadCall(id);
  });
  async function loadCall(id) {
    try {
      const res = await fetch(`/api/sample-calls/${encodeURIComponent(id)}`);
      if (!res.ok) throw new Error(`Not found: ${res.status}`);
      const data = await res.json();
      renderBasic(data); renderAgent(data.agent_outputs || {});
      renderBaseline(data); renderTokens(data.token_usage || {});
    } catch (err) { alert(err.message || "Failed to load call"); }
  }\<close>
  The four sections are texts built from the record; the model keeps the record shown.
  \<open>renderBasic\<close> reads \<open>c.ticker\<close> first, which throws when the record is \<open>null\<close>.
\<close>

record detailApp =
  shown :: "jsval option"
  detail_alerts :: "string list"
  detail_requests :: "request list"

definition detail_alert :: "string \<Rightarrow> detailApp \<Rightarrow> detailApp" where
  "detail_alert m a = a\<lparr> detail_alerts := detail_alerts a @ [m] \<rparr>"

definition detail_start :: "string option \<Rightarrow> detailApp" where
  "detail_start ident =
     (let a = \<lparr> shown = None, detail_alerts = [], detail_requests = [] \<rparr> in
      case ident of
        None \<Rightarrow> detail_alert ''Missing id'' a
      | Some i \<Rightarrow>
          if i = [] then detail_alert ''Missing id'' a
          else a\<lparr> detail_requests := [Get (''/api/sample-calls/'' @ encodeURIComponent i)] \<rparr>)"

fun loadCall_done :: "jsval response \<Rightarrow> detailApp \<Rightarrow> detailApp" where
  "loadCall_done (Rejected m) a = detail_alert (or_text m ''Failed to load call'') a"
| "loadCall_done (Response status body js) a =
     (if \<not> ok status then
        detail_alert (or_text (''Not found: '' @ string_of_int status) ''Failed to load call'') a
      else
        (case js of
           Inl m \<Rightarrow> detail_alert (or_text m ''Failed to load call'') a
         | Inr data \<Rightarrow>
             (case get_prop data ''ticker'' of
                Inl e \<Rightarrow> detail_alert (or_text (message e) ''Failed to load call'') a
              | Inr t \<Rightarrow> a\<lparr> shown := Some data \<rparr>)))"

section \<open>Notions used to state the properties\<close>

text \<open>The own property \<open>k\<close> of an object with the properties \<open>kvs\<close>, or \<open>undefined\<close>.\<close>

definition field :: "(string \<times> jsval) list \<Rightarrow> string \<Rightarrow> jsval" where
  "field kvs k = (case map_of kvs k of None \<Rightarrow> Undefined | Some v \<Rightarrow> v)"

text \<open>
  "The first non-empty of the candidates, then the fallback": the first candidate that
  the language counts as true (for a string: that is not empty), or else the fallback.
\<close>

definition first_truthy :: "jsval list \<Rightarrow> jsval \<Rightarrow> jsval" where
  "first_truthy cands fallback = (case filter truthy cands of [] \<Rightarrow> fallback | c # _ \<Rightarrow> c)"

text \<open>A value whose conversion to a string does not throw, and the string it gives.\<close>

definition convertible :: "jsval \<Rightarrow> bool" where
  "convertible v = (case ToString v of Inl e \<Rightarrow> False | Inr t \<Rightarrow> True)"

definition the_text :: "jsval \<Rightarrow> string" where
  "the_text v = (case ToString v of Inl e \<Rightarrow> [] | Inr t \<Rightarrow> t)"

text \<open>
  The request for a page of rows that \<open>loadPage\<close> issues in the state \<open>s\<close>, and the
  requests that go to the rows endpoint and to the sample-calls endpoint.
\<close>

definition rows_request :: "state \<Rightarrow> request" where
  "rows_request s = Get (''/api/rows?'' @ buildQueryString s)"






text \<open>
  Grouping by type as a specification: the name under which an item is grouped, its
  \<open>type\<close> or \<open>Other\<close>; the items that the grouping takes without an exception and under a
  name that \<open>Object.entries\<close> lists in creation order (neither an inherited name nor an
  array index); the names in the order in which they are first seen; and the groups in
  that order, each with its items in their original order.
\<close>

definition type_key :: "jsval \<Rightarrow> string" where
  "type_key item = the_text (js_or (opt_prop item ''type'') (Str ''Other''))"

definition groupable :: "jsval \<Rightarrow> bool" where
  "groupable item =
     (\<not> nullish item \<and> convertible (js_or (opt_prop item ''type'') (Str ''Other''))
      \<and> type_key item \<notin> set proto_names \<and> \<not> is_array_index (type_key item))"

definition first_seen :: "'a list \<Rightarrow> 'a list" where
  "first_seen ks = rev (remdups (rev ks))"

definition grouped :: "jsval list \<Rightarrow> groups" where
  "grouped items =
     map (\<lambda>k. (k, filter (\<lambda>i. type_key i = k) items)) (first_seen (map type_key items))"

text \<open>The facts of a list of items that all render, and the sections of a list of groups.\<close>

definition facts_of :: "jsval list \<Rightarrow> fact list" where
  "facts_of l = (case render_facts l of Inl e \<Rightarrow> [] | Inr fs \<Rightarrow> fs)"

definition sections_of :: "groups \<Rightarrow> node list" where
  "sections_of g =
     map (\<lambda>(j, (k, l)). Details (j = 0) (section_title k (length l)) (facts_of l))
       (enumerate 0 g)"

text \<open>A row whose cells can all be built (no read or conversion throws), and its cells.\<close>

definition renders :: "string list \<Rightarrow> jsval \<Rightarrow> bool" where
  "renders cols row = (case map_exn (cell_text row) cols of Inl e \<Rightarrow> False | Inr cells \<Rightarrow> True)"

definition cells_of :: "string list \<Rightarrow> jsval \<Rightarrow> string list" where
  "cells_of cols row = (case map_exn (cell_text row) cols of Inl e \<Rightarrow> [] | Inr cells \<Rightarrow> cells)"

subsection \<open>Two datasets\<close>

text \<open>
  The server offers the datasets \<open>A\<close> and \<open>B\<close>; the page has loaded the list, so \<open>A\<close> is
  selected. A page of rows of each, a response that reports the page \<open>-3\<close>, and a failed
  response with a body.
\<close>

definition app_A :: app where
  "app_A = fetchDatasets_done (Response 200 [] (Inr (Some [''A'', ''B'']))) init_app"

definition rows_A :: "rows_data response" where
  "rows_A = Response 200 []
     (Inr \<lparr> d_columns = Some [''ticker'', ''sentiment''],
            d_rows = Some [Obj [(''ticker'', Str ''AAPL''), (''sentiment'', Num 1)]],
            d_page = 1, d_page_size = 25, d_total = 1 \<rparr>)"

definition rows_B :: "rows_data response" where
  "rows_B = Response 200 []
     (Inr \<lparr> d_columns = Some [''name''],
            d_rows = Some [Obj [(''name'', Str ''x'')], Obj [(''name'', Str ''y'')]],
            d_page = 1, d_page_size = 25, d_total = 60 \<rparr>)"


definition options_A :: "options_data response" where
  "options_A = Response 200 []
     (Inr \<lparr> d_tickers = Some [''AAPL'', ''MSFT''], d_quarters = Some [''2024Q1''] \<rparr>)"

section \<open>The page count\<close>

lemma ceiling_divide_of_int:
  "ceiling (of_int a / of_int b :: 'a :: floor_ceiling) = - ((- a) div b)"
proof -
  have "ceiling (of_int a / of_int b :: 'a) = - floor (of_int (- a) / of_int b :: 'a)"
    by (simp add: ceiling_def)
  also have "\<dots> = - ((- a) div b)"
    by (simp only: floor_divide_of_int_eq)
  finally show ?thesis .
qed

lemma neg_div_pos:
  fixes a b :: int
  assumes "0 < b"
  shows "- ((- a) div b) = (a + b - 1) div b"
proof -
  define q where "q = (a - 1) div b"
  define r where "r = (a - 1) mod b"
  have r: "0 \<le> r" "r < b" using assms by (simp_all add: r_def)
  have a: "a = q * b + r + 1" by (simp add: q_def r_def)
  have "(- a) = (- (q + 1)) * b + (b - r - 1)" by (simp add: a algebra_simps)
  then have 1: "(- a) div b = - (q + 1)"
    using r by simp
  have "a + b - 1 = (q + 1) * b + r" by (simp add: a algebra_simps)
  then have 2: "(a + b - 1) div b = q + 1"
    using r by simp
  from 1 2 show ?thesis by simp
qed

text \<open>
  C1. For all \<open>total \<ge> 0\<close> and \<open>pageSize > 0\<close>, \<open>computeTotalPages(total, pageSize)\<close> is
  \<open>max(1, ceil(total / pageSize))\<close>, the quotient taken in the reals; with \<open>total = 0\<close>
  the result is one page. In integer arithmetic it is \<open>max 1 ((tot + pageSize - 1) div
  pageSize)\<close>.
\<close>

theorem computeTotalPages_spec:
  assumes "0 \<le> tot" and "0 < psize"
  shows "computeTotalPages tot psize
           = Fin (max 1 (ceiling (real_of_int tot / real_of_int psize)))
         \<and> computeTotalPages tot psize = Fin (max 1 ((tot + psize - 1) div psize))
         \<and> computeTotalPages 0 psize = Fin 1"
proof -
  have a: "computeTotalPages tot psize
           = Fin (max 1 (ceiling (real_of_int tot / real_of_int psize)))"
    using assms by (simp add: computeTotalPages_def ceiling_divide_of_int)
  have b: "computeTotalPages tot psize = Fin (max 1 ((tot + psize - 1) div psize))"
    using assms by (simp add: computeTotalPages_def ceiling_divide_of_int neg_div_pos)
  have c: "computeTotalPages 0 psize = Fin 1"
    using assms by (simp add: computeTotalPages_def)
  from a b c show ?thesis by simp
qed

theorem computeTotalPages_spec_witness:
  "(0::int) \<le> 51 \<and> (0::int) < 25
   \<and> computeTotalPages 51 25 = Fin 3 \<and> computeTotalPages 0 25 = Fin 1"
proof -
  have h1: "(0::int) \<le> 51" and h2: "(0::int) < 25" by simp_all
  from computeTotalPages_spec [OF h1 h2] show ?thesis by simp
qed

section \<open>The query strings\<close>

lemma hex_digit_roundtrip: "n < 16 \<Longrightarrow> is_hex (hex_digit n) \<and> hex_val (hex_digit n) = n"
proof -
  assume "n < 16"
  then consider "n = 0" | "n = 1" | "n = 2" | "n = 3" | "n = 4" | "n = 5" | "n = 6" | "n = 7"
    | "n = 8" | "n = 9" | "n = 10" | "n = 11" | "n = 12" | "n = 13" | "n = 14" | "n = 15"
    by atomize_elim arith
  then show ?thesis
    by cases (simp_all add: is_hex_def hex_digit_def hex_val_def)
qed

lemma hex_digit_alnum: "n < 16 \<Longrightarrow> is_alnum (hex_digit n)"
proof -
  assume "n < 16"
  then consider "n = 0" | "n = 1" | "n = 2" | "n = 3" | "n = 4" | "n = 5" | "n = 6" | "n = 7"
    | "n = 8" | "n = 9" | "n = 10" | "n = 11" | "n = 12" | "n = 13" | "n = 14" | "n = 15"
    by atomize_elim arith
  then show ?thesis
    by cases (simp_all add: is_alnum_def hex_digit_def)
qed

lemma char_split: "char_of (16 * (of_char c div 16) + of_char c mod (16::nat)) = (c::char)"
  by simp

lemma of_char_div16: "(of_char (c::char) :: nat) div 16 < 16"
proof -
  have "(of_char c :: nat) < 16 * 16" by simp
  then show ?thesis by (rule less_mult_imp_div_less)
qed

lemma safe_not_special: "url_safe c \<Longrightarrow> c \<noteq> CHR ''+'' \<and> c \<noteq> CHR ''%'' \<and> c \<noteq> CHR ''&'' \<and> c \<noteq> CHR ''=''"
  by (auto simp: url_safe_def is_alnum_def)

lemma decode_encode_byte: "form_decode (encode_byte c @ rest) = c # form_decode rest"
  using hex_digit_roundtrip [OF of_char_div16 [of c]] hex_digit_roundtrip [of "of_char c mod 16"]
    safe_not_special [of c]
  by (auto simp: encode_byte_def)

lemma decode_encode_app: "form_decode (form_encode s @ rest) = s @ form_decode rest"
  by (induction s) (simp_all add: form_encode_def decode_encode_byte)

lemma decode_encode: "form_decode (form_encode s) = s"
  using decode_encode_app [of s "[]"] by simp

lemma encode_byte_chars:
  "x \<in> set (encode_byte c) \<Longrightarrow> url_safe x \<or> x = CHR ''+'' \<or> x = CHR ''%''"
  using hex_digit_alnum [OF of_char_div16 [of c]] hex_digit_alnum [of "of_char c mod 16"]
  by (auto simp: encode_byte_def url_safe_def split: if_splits)

lemma encode_chars:
  "x \<in> set (form_encode s) \<Longrightarrow> url_safe x \<or> x = CHR ''+'' \<or> x = CHR ''%''"
  by (auto simp: form_encode_def dest: encode_byte_chars)

lemma encode_no_sep: "CHR ''&'' \<notin> set (form_encode s)" "CHR ''='' \<notin> set (form_encode s)"
  using encode_chars [of "CHR ''&''" s] encode_chars [of "CHR ''=''" s] safe_not_special
  by auto

lemma split_on_nonempty: "split_on d s \<noteq> []"
  by (induction s) (auto split: list.splits)

lemma split_on_none: "d \<notin> set a \<Longrightarrow> split_on d a = [a]"
  by (induction a) auto

lemma split_on_app: "d \<notin> set a \<Longrightarrow> split_on d (a @ d # rest) = a # split_on d rest"
  by (induction a) auto

lemma parse_pair_encode: "parse_pair (form_encode k @ CHR ''='' # form_encode v) = (k, v)"
proof -
  have "takeWhile (\<lambda>c. c \<noteq> CHR ''='') (form_encode k @ CHR ''='' # form_encode v) = form_encode k"
    using encode_no_sep(2) [of k] by (subst takeWhile_append2) auto
  moreover have "dropWhile (\<lambda>c. c \<noteq> CHR ''='') (form_encode k @ CHR ''='' # form_encode v) = CHR ''='' # form_encode v"
    using encode_no_sep(2) [of k] by (subst dropWhile_append2) auto
  ultimately show ?thesis by (simp add: parse_pair_def decode_encode)
qed

lemma pair_no_amp: "CHR ''&'' \<notin> set (form_encode k @ CHR ''='' # form_encode v)"
  using encode_no_sep(1) by simp

lemma parse_serialize: "parse_query (serialize ps) = ps"
proof (induction ps rule: serialize.induct)
  case 1
  then show ?case by (simp add: parse_query_def)
next
  case (2 k v)
  have "split_on CHR ''&'' (form_encode k @ CHR ''='' # form_encode v) = [form_encode k @ CHR ''='' # form_encode v]"
    by (rule split_on_none [OF pair_no_amp])
  then show ?case by (simp add: parse_query_def parse_pair_encode)
next
  case (3 k v p ps)
  have "split_on CHR ''&'' ((form_encode k @ CHR ''='' # form_encode v) @ CHR ''&'' # serialize (p # ps))
        = (form_encode k @ CHR ''='' # form_encode v) # split_on CHR ''&'' (serialize (p # ps))"
    by (rule split_on_app [OF pair_no_amp])
  with 3 show ?case by (simp add: parse_query_def parse_pair_encode)
qed


lemma serialize_chars:
  "c \<in> set (serialize ps) \<Longrightarrow> url_safe c \<or> c = CHR ''+'' \<or> c = CHR ''%'' \<or> c = CHR ''='' \<or> c = CHR ''&''"
  by (induction ps rule: serialize.induct) (auto dest: encode_chars)

lemma append_if_eq: "append_if k v ps = ps @ filter_param k v"
  by (simp add: append_if_def filter_param_def)

text \<open>
  C2. For every browse state the query string of \<open>buildQueryString\<close>, read back as the
  receiving side reads it, is exactly: dataset, page and page size, then ticker, quarter
  and search, each of the three present only when its value is not empty; so the string is
  a faithful URL encoding (every value is recovered, and every character is a letter, a
  digit, one of \<open>* - . _\<close> or one of \<open>+ % = &\<close>), and it never holds a filter key with
  an empty value. The query of \<open>loadCalls\<close> likewise always holds page, page size and
  sort order, and exchange, sector, predicted label and the return bounds only when they
  are not empty.
\<close>

theorem buildQueryString_spec:
  "parse_query (buildQueryString s) =
     [(''dataset'', dataset_text (dataset s)),
      (''page'', string_of_int (page s)),
      (''page_size'', string_of_int (pageSize s))]
     @ filter_param ''ticker'' (ticker s)
     @ filter_param ''quarter'' (quarter s)
     @ filter_param ''search'' (search s)
   \<and> parse_query (call_query c) =
     [(''page'', string_of_int (call_page c)),
      (''page_size'', string_of_int (call_pageSize c)),
      (''sort_by'', call_sort c)]
     @ filter_param ''exchange'' (exchange c)
     @ filter_param ''sector'' (sector c)
     @ filter_param ''pred_label'' (pred c)
     @ filter_param ''return_min'' (retMin c)
     @ filter_param ''return_max'' (retMax c)
   \<and> (\<forall>x \<in> set (buildQueryString s) \<union> set (call_query c).
         url_safe x \<or> x = CHR ''+'' \<or> x = CHR ''%'' \<or> x = CHR ''='' \<or> x = CHR ''&'')
   \<and> (\<forall>(k, v) \<in> set (parse_query (buildQueryString s)).
         k \<in> {''ticker'', ''quarter'', ''search''} \<longrightarrow> v \<noteq> [])
   \<and> (\<forall>(k, v) \<in> set (parse_query (call_query c)).
         k \<in> {''exchange'', ''sector'', ''pred_label'', ''return_min'', ''return_max''} \<longrightarrow> v \<noteq> [])
   \<and> (\<forall>d. dataset s = Some d \<longrightarrow> (''dataset'', d) \<in> set (parse_query (buildQueryString s)))"
proof -
  have q: "parse_query (buildQueryString s) = query_params s"
    by (simp add: buildQueryString_def parse_serialize)
  have c: "parse_query (call_query c) = call_params c"
    by (simp add: call_query_def parse_serialize)
  have qp: "query_params s =
     [(''dataset'', dataset_text (dataset s)),
      (''page'', string_of_int (page s)),
      (''page_size'', string_of_int (pageSize s))]
     @ filter_param ''ticker'' (ticker s)
     @ filter_param ''quarter'' (quarter s)
     @ filter_param ''search'' (search s)"
    by (simp add: query_params_def append_if_eq)
  have cp: "call_params c =
     [(''page'', string_of_int (call_page c)),
      (''page_size'', string_of_int (call_pageSize c)),
      (''sort_by'', call_sort c)]
     @ filter_param ''exchange'' (exchange c)
     @ filter_param ''sector'' (sector c)
     @ filter_param ''pred_label'' (pred c)
     @ filter_param ''return_min'' (retMin c)
     @ filter_param ''return_max'' (retMax c)"
    by (simp add: call_params_def append_if_eq)
  have chars: "\<forall>x \<in> set (buildQueryString s) \<union> set (call_query c).
         url_safe x \<or> x = CHR ''+'' \<or> x = CHR ''%'' \<or> x = CHR ''='' \<or> x = CHR ''&''"
    using serialize_chars by (auto simp: buildQueryString_def call_query_def)
  have e1: "\<forall>(k, v) \<in> set (query_params s).
         k \<in> {''ticker'', ''quarter'', ''search''} \<longrightarrow> v \<noteq> []"
    unfolding qp by (auto simp: filter_param_def split: if_splits)
  have e2: "\<forall>(k, v) \<in> set (call_params c).
         k \<in> {''exchange'', ''sector'', ''pred_label'', ''return_min'', ''return_max''} \<longrightarrow> v \<noteq> []"
    unfolding cp by (auto simp: filter_param_def split: if_splits)
  have d: "\<forall>d. dataset s = Some d \<longrightarrow> (''dataset'', d) \<in> set (query_params s)"
    unfolding qp by (simp add: dataset_text_def)
  show ?thesis
    unfolding q c using qp cp chars e1 e2 d by blast
qed

theorem buildQueryString_spec_witness:
  "parse_query (buildQueryString (init_state\<lparr>dataset := Some ''a b&c'', ticker := ''AAPL''\<rparr>))
     = [(''dataset'', ''a b&c''), (''page'', ''1''), (''page_size'', ''25''), (''ticker'', ''AAPL'')]
   \<and> buildQueryString (init_state\<lparr>dataset := Some ''a b&c'', ticker := ''AAPL''\<rparr>)
     = ''dataset=a+b%26c&page=1&page_size=25&ticker=AAPL''
   \<and> parse_query (call_query init_callState)
     = [(''page'', ''1''), (''page_size'', ''10''), (''sort_by'', ''date'')]"
proof -
  have n: "string_of_int 1 = ''1''" "string_of_int 25 = ''25''" "string_of_int 10 = ''10''"
    by (simp_all add: string_of_int_def string_of_nat.simps digit_char_def)
  have "buildQueryString (init_state\<lparr>dataset := Some ''a b&c'', ticker := ''AAPL''\<rparr>)
     = ''dataset=a+b%26c&page=1&page_size=25&ticker=AAPL''"
    by (simp add: buildQueryString_def query_params_def append_if_def init_state_def n
        dataset_text_def form_encode_def encode_byte_def url_safe_def is_alnum_def hex_digit_def)
  then show ?thesis
    using buildQueryString_spec [of "init_state\<lparr>dataset := Some ''a b&c'', ticker := ''AAPL''\<rparr>" init_callState]
    by (simp add: init_state_def init_callState_def filter_param_def dataset_text_def n)
qed

section \<open>The graph model and the baseline view\<close>

lemma get_prop_Obj: "get_prop (Obj kvs) k = Inr (field kvs k)"
  by (simp add: field_def)

lemma first_truthy_Cons:
  "first_truthy (c # cs) d = (if truthy c then c else first_truthy cs d)"
  by (simp add: first_truthy_def)

lemma first_truthy_Nil: "first_truthy [] d = d"
  by (simp add: first_truthy_def)

lemma derive_label_first:
  "derive_label props labels ident =
     first_truthy [opt_prop props ''ticker'', opt_prop props ''symbol'', opt_prop props ''metric'',
                   opt_prop props ''quarter'', first_label labels] ident"
  by (simp add: derive_label_def js_or_def first_truthy_Cons first_truthy_Nil)

lemma map_exn_all:
  "\<forall>x \<in> set xs. f x = Inr (g x) \<Longrightarrow> map_exn f xs = Inr (map g xs)"
  by (induction xs) simp_all

lemma map_exn_map: "map_exn f (map h xs) = map_exn (\<lambda>x. f (h x)) xs"
  by (induction xs) (simp_all split: sum.splits)

text \<open>
  C5. For a graph payload whose \<open>nodes\<close> and \<open>edges\<close> are arrays of objects,
  \<open>renderGraph\<close> hands to the drawing library exactly one node for each node of the
  payload and one edge for each edge, in order, whatever network was shown before. The
  label of a node is the first non-empty (true in the language's sense) of
  \<open>properties.ticker\<close>, \<open>properties.symbol\<close>, \<open>properties.metric\<close>, \<open>properties.quarter\<close> and
  the first entry of \<open>labels\<close>, and else its raw \<open>id\<close>; absent properties or labels count
  as empty. An edge has \<open>source\<close> and \<open>target\<close> as \<open>from\<close> and \<open>to\<close>, the arrow \<open>to\<close>, and
  its \<open>type\<close> as label, the empty string when the type is absent.
\<close>

theorem graph_model_spec:
  "(field dkvs ''nodes'' = Arr (map Obj nodes) \<and> field dkvs ''edges'' = Arr (map Obj edges) \<longrightarrow>
      renderGraph True g (Obj dkvs) =
        (Some \<lparr> net_nodes =
                   map (\<lambda>kvs.
                     \<lparr> node_id = field kvs ''id'',
                       node_label =
                         first_truthy
                           [opt_prop (field kvs ''properties'') ''ticker'',
                            opt_prop (field kvs ''properties'') ''symbol'',
                            opt_prop (field kvs ''properties'') ''metric'',
                            opt_prop (field kvs ''properties'') ''quarter'',
                            first_label (field kvs ''labels'')]
                           (field kvs ''id''),
                       node_group = first_truthy [first_label (field kvs ''labels'')] (Str ''Node''),
                       node_title = first_truthy [field kvs ''properties''] (Obj []) \<rparr>) nodes,
                 net_edges =
                   map (\<lambda>kvs.
                     \<lparr> edge_id = field kvs ''id'',
                       edge_from = field kvs ''source'',
                       edge_to = field kvs ''target'',
                       edge_label = (if truthy (field kvs ''type'') then field kvs ''type''
                                     else Str []),
                       arrows = ''to'' \<rparr>) edges \<rparr>, None))
   \<and> node_of (Obj kvs) =
     Inr \<lparr> node_id = field kvs ''id'',
           node_label =
             first_truthy
               [opt_prop (field kvs ''properties'') ''ticker'',
                opt_prop (field kvs ''properties'') ''symbol'',
                opt_prop (field kvs ''properties'') ''metric'',
                opt_prop (field kvs ''properties'') ''quarter'',
                first_label (field kvs ''labels'')]
               (field kvs ''id''),
           node_group = first_truthy [first_label (field kvs ''labels'')] (Str ''Node''),
           node_title = first_truthy [field kvs ''properties''] (Obj []) \<rparr>
   \<and> (\<forall>props k. opt_prop (Obj props) k = field props k)
   \<and> (\<forall>k. opt_prop Undefined k = Undefined \<and> opt_prop Null k = Undefined)
   \<and> (\<forall>x xs. first_label (Arr (x # xs)) = x)
   \<and> first_label (Arr []) = Undefined \<and> first_label Undefined = Undefined
   \<and> (\<forall>s. truthy (Str s) = (s \<noteq> []))
   \<and> \<not> truthy Undefined \<and> \<not> truthy Null
   \<and> edge_of (Obj ekvs) =
        Inr \<lparr> edge_id = field ekvs ''id'',
              edge_from = field ekvs ''source'',
              edge_to = field ekvs ''target'',
              edge_label = (if truthy (field ekvs ''type'') then field ekvs ''type'' else Str []),
              arrows = ''to'' \<rparr>"
proof -
  let ?node = "\<lambda>kvs.
       \<lparr> node_id = field kvs ''id'',
         node_label =
           first_truthy
             [opt_prop (field kvs ''properties'') ''ticker'',
              opt_prop (field kvs ''properties'') ''symbol'',
              opt_prop (field kvs ''properties'') ''metric'',
              opt_prop (field kvs ''properties'') ''quarter'',
              first_label (field kvs ''labels'')]
             (field kvs ''id''),
         node_group = first_truthy [first_label (field kvs ''labels'')] (Str ''Node''),
         node_title = first_truthy [field kvs ''properties''] (Obj []) \<rparr>"
  let ?edge = "\<lambda>kvs.
       \<lparr> edge_id = field kvs ''id'',
         edge_from = field kvs ''source'',
         edge_to = field kvs ''target'',
         edge_label = (if truthy (field kvs ''type'') then field kvs ''type'' else Str []),
         arrows = ''to'' \<rparr>"
  have n: "node_of (Obj kvs) = Inr (?node kvs)" for kvs
    unfolding node_of_def get_prop_Obj derive_label_first
    by (simp add: js_or_def first_truthy_Cons first_truthy_Nil)
  have e: "edge_of (Obj kvs) = Inr (?edge kvs)" for kvs
    unfolding edge_of_def get_prop_Obj by (simp add: js_or_def)
  have "map_exn (\<lambda>kvs. node_of (Obj kvs)) nodes = Inr (map ?node nodes)"
    by (rule map_exn_all) (simp add: n)
  then have ns: "map_exn node_of (map Obj nodes) = Inr (map ?node nodes)"
    by (simp add: map_exn_map)
  have "map_exn (\<lambda>kvs. edge_of (Obj kvs)) edges = Inr (map ?edge edges)"
    by (rule map_exn_all) (simp add: e)
  then have es: "map_exn edge_of (map Obj edges) = Inr (map ?edge edges)"
    by (simp add: map_exn_map)
  have r: "renderGraph True g (Obj dkvs) =
             (Some \<lparr> net_nodes = map ?node nodes, net_edges = map ?edge edges \<rparr>, None)"
    if "field dkvs ''nodes'' = Arr (map Obj nodes) \<and> field dkvs ''edges'' = Arr (map Obj edges)"
    unfolding renderGraph_def get_prop_Obj using that ns es
    by (simp add: items_of_def)
  have o: "\<forall>props k. opt_prop (Obj props) k = field props k"
    by (simp add: opt_prop_def field_def)
  have u: "\<forall>k. opt_prop Undefined k = Undefined \<and> opt_prop Null k = Undefined"
    by (simp add: opt_prop_def)
  have l: "\<forall>x xs. first_label (Arr (x # xs)) = x"
    "first_label (Arr []) = Undefined" "first_label Undefined = Undefined"
    by (simp_all add: first_label_def js_and_def)
  from r n [of kvs] e [of ekvs] o u l show ?thesis by simp
qed

theorem graph_model_spec_witness:
  "renderGraph True None
     (Obj [(''nodes'',
            Arr [Obj [(''id'', Num 7), (''labels'', Arr [Str ''Company'']),
                      (''properties'', Obj [(''ticker'', Str ''AAPL''), (''symbol'', Str ''A'')])],
                 Obj [(''id'', Num 8)]]),
           (''edges'', Arr [Obj [(''id'', Num 1), (''source'', Num 7), (''target'', Num 8)]])])
     = (Some \<lparr> net_nodes =
                  [\<lparr> node_id = Num 7, node_label = Str ''AAPL'', node_group = Str ''Company'',
                     node_title = Obj [(''ticker'', Str ''AAPL''), (''symbol'', Str ''A'')] \<rparr>,
                   \<lparr> node_id = Num 8, node_label = Num 8, node_group = Str ''Node'',
                     node_title = Obj [] \<rparr>],
                net_edges =
                  [\<lparr> edge_id = Num 1, edge_from = Num 7, edge_to = Num 8, edge_label = Str [],
                     arrows = ''to'' \<rparr>] \<rparr>, None)"
proof -
  let ?n1 = "[(''id'', Num 7), (''labels'', Arr [Str ''Company'']),
              (''properties'', Obj [(''ticker'', Str ''AAPL''), (''symbol'', Str ''A'')])]"
  let ?n2 = "[(''id'', Num 8)]"
  let ?e1 = "[(''id'', Num 1), (''source'', Num 7), (''target'', Num 8)]"
  let ?d = "[(''nodes'', Arr [Obj ?n1, Obj ?n2]), (''edges'', Arr [Obj ?e1])]"
  have h: "field ?d ''nodes'' = Arr (map Obj [?n1, ?n2]) \<and> field ?d ''edges'' = Arr (map Obj [?e1])"
    by (simp add: field_def)
  from graph_model_spec [of ?d "[?n1, ?n2]" "[?e1]" None] h
  have "renderGraph True None (Obj ?d) =
        (Some \<lparr> net_nodes =
                   map (\<lambda>kvs.
                     \<lparr> node_id = field kvs ''id'',
                       node_label =
                         first_truthy
                           [opt_prop (field kvs ''properties'') ''ticker'',
                            opt_prop (field kvs ''properties'') ''symbol'',
                            opt_prop (field kvs ''properties'') ''metric'',
                            opt_prop (field kvs ''properties'') ''quarter'',
                            first_label (field kvs ''labels'')]
                           (field kvs ''id''),
                       node_group = first_truthy [first_label (field kvs ''labels'')] (Str ''Node''),
                       node_title = first_truthy [field kvs ''properties''] (Obj []) \<rparr>) [?n1, ?n2],
                 net_edges =
                   map (\<lambda>kvs.
                     \<lparr> edge_id = field kvs ''id'',
                       edge_from = field kvs ''source'',
                       edge_to = field kvs ''target'',
                       edge_label = (if truthy (field kvs ''type'') then field kvs ''type''
                                     else Str []),
                       arrows = ''to'' \<rparr>) [?e1] \<rparr>, None)"
    by blast
  then show ?thesis
    by (simp add: field_def first_truthy_def opt_prop_def first_label_def js_and_def)
qed

lemma add_blank: "blank v \<Longrightarrow> add l v lis = Inr lis"
  by (simp add: add_def)

lemma add_convertible:
  "\<not> blank v \<Longrightarrow> convertible v \<Longrightarrow> add l v lis = Inr (lis @ [l @ '': '' @ the_text v])"
  by (auto simp: add_def convertible_def the_text_def split: sum.splits)

lemma add_all_convertible:
  "\<forall>(l, v) \<in> set cs. blank v \<or> convertible v \<Longrightarrow>
   add_all cs lis =
     Inr (lis @ map (\<lambda>(l, v). l @ '': '' @ the_text v) (filter (\<lambda>(l, v). \<not> blank v) cs))"
proof (induction cs arbitrary: lis)
  case Nil
  then show ?case by simp
next
  case (Cons c cs)
  obtain l v where c: "c = (l, v)" by (cases c)
  show ?case
  proof (cases "blank v")
    case True
    with Cons c show ?thesis by (simp add: add_blank)
  next
    case False
    with Cons c have "convertible v" by simp
    with False Cons c show ?thesis by (simp add: add_convertible)
  qed
qed

lemma candidates_Obj:
  "candidates (Obj kvs) =
     Inr [(''Sentiment'', field kvs ''sentiment''), (''Polarity'', field kvs ''polarity''),
          (''Positive count'', field kvs ''positive_count''),
          (''Negative count'', field kvs ''negative_count''),
          (''Label'', field kvs ''label''), (''Pred'', field kvs ''pred''),
          (''Future 3-day return / Actual return'',
             js_coalesce (field kvs ''future_3bday_cum_return'') (field kvs ''actual_return''))]"
  by (simp add: candidates_def field_def)

text \<open>
  C8. The baseline view has three states, over seven values of the row: \<open>sentiment\<close>,
  \<open>polarity\<close>, \<open>positive_count\<close>, \<open>negative_count\<close>, \<open>label\<close>, \<open>pred\<close>, and one return
  value, which is \<open>future_3bday_cum_return\<close> unless that is absent or \<open>null\<close>, and then
  \<open>actual_return\<close>. When none of \<open>sentiment\<close>, \<open>positive_count\<close>, \<open>polarity\<close> is among the
  current columns the view shows the text for a dataset without baseline metrics. When
  one is, and each of the seven values is absent, \<open>null\<close> or the empty string, it shows a
  different text, for a row without values. Otherwise it lists, in order, exactly those
  of the seven values that are present and not empty, each as \<open>label: value\<close>. So
  \<open>actual_return\<close> is not a candidate of its own: an empty future return hides it, and
  it is never listed beside a future return.
\<close>

theorem baseline_three_way:
  assumes "vals =
      [(''Sentiment'', field kvs ''sentiment''), (''Polarity'', field kvs ''polarity''),
       (''Positive count'', field kvs ''positive_count''),
       (''Negative count'', field kvs ''negative_count''),
       (''Label'', field kvs ''label''), (''Pred'', field kvs ''pred''),
       (''Future 3-day return / Actual return'',
          if field kvs ''future_3bday_cum_return'' = Undefined
             \<or> field kvs ''future_3bday_cum_return'' = Null
          then field kvs ''actual_return'' else field kvs ''future_3bday_cum_return'')]"
    and "present = filter (\<lambda>(l, v). v \<noteq> Undefined \<and> v \<noteq> Null \<and> v \<noteq> Str []) vals"
    and "marker = (''sentiment'' \<in> set cols \<or> ''positive_count'' \<in> set cols
                   \<or> ''polarity'' \<in> set cols)"
  shows "(\<not> marker \<longrightarrow>
            renderBaselineDetails cols (Some old) (Obj kvs)
              = (Some [TextNode ''No baseline sentiment metrics in this dataset.''], None))
       \<and> (marker \<and> present = [] \<longrightarrow>
            renderBaselineDetails cols (Some old) (Obj kvs)
              = (Some [TextNode ''Baseline columns detected but no values on this row.''], None))
       \<and> (marker \<and> present \<noteq> [] \<and> (\<forall>(l, v) \<in> set present. convertible v) \<longrightarrow>
            renderBaselineDetails cols (Some old) (Obj kvs)
              = (Some [ListNode (map (\<lambda>(l, v). l @ '': '' @ the_text v) present)], None))"
proof -
  have cs: "candidates (Obj kvs) = Inr vals"
    unfolding assms(1) by (simp add: candidates_Obj js_coalesce_def nullish_def)
  have p: "present = filter (\<lambda>(l, v). \<not> blank v) vals"
    unfolding assms(2) by (rule filter_cong) (auto simp: blank_def)
  have m: "marker = hasBaseline cols"
    by (simp add: assms(3) hasBaseline_def)
  have a: "add_all vals [] = Inr (map (\<lambda>(l, v). l @ '': '' @ the_text v) present)"
    if "\<forall>(l, v) \<in> set present. convertible v"
  proof -
    from that have "\<forall>(l, v) \<in> set vals. blank v \<or> convertible v"
      unfolding p by auto
    from add_all_convertible [OF this, of "[]"] show ?thesis
      by (simp add: p)
  qed
  have 1: "renderBaselineDetails cols (Some old) (Obj kvs)
              = (Some [TextNode ''No baseline sentiment metrics in this dataset.''], None)"
    if "\<not> marker"
    using that by (simp add: renderBaselineDetails_def m no_baseline_def)
  have 2: "renderBaselineDetails cols (Some old) (Obj kvs)
              = (Some [TextNode ''Baseline columns detected but no values on this row.''], None)"
    if "marker \<and> present = []"
  proof -
    from that have "\<forall>(l, v) \<in> set present. convertible v" by simp
    from a [OF this] that cs show ?thesis
      by (simp add: renderBaselineDetails_def m baseline_empty_def)
  qed
  have 3: "renderBaselineDetails cols (Some old) (Obj kvs)
              = (Some [ListNode (map (\<lambda>(l, v). l @ '': '' @ the_text v) present)], None)"
    if "marker \<and> present \<noteq> [] \<and> (\<forall>(l, v) \<in> set present. convertible v)"
  proof -
    from that have c: "\<forall>(l, v) \<in> set present. convertible v" by simp
    from a [OF c] that cs show ?thesis
      by (simp add: renderBaselineDetails_def m)
  qed
  from 1 2 3 show ?thesis by blast
qed

theorem baseline_three_way_witness:
  "renderBaselineDetails [''ticker'', ''pred''] (Some [])
        (Obj [(''ticker'', Str ''AAPL''), (''sentiment'', Str []), (''pred'', Num 0)])
     = (Some [TextNode ''No baseline sentiment metrics in this dataset.''], None)
   \<and> renderBaselineDetails [''ticker'', ''sentiment''] (Some [])
        (Obj [(''ticker'', Str ''AAPL''), (''sentiment'', Str []), (''pred'', Num 0)])
     = (Some [ListNode [''Pred: 0'']], None)
   \<and> renderBaselineDetails [''ticker'', ''sentiment''] (Some [])
        (Obj [(''ticker'', Str ''AAPL''), (''sentiment'', Str [])])
     = (Some [TextNode ''Baseline columns detected but no values on this row.''], None)
   \<and> renderBaselineDetails [''polarity''] (Some [])
        (Obj [(''actual_return'', Num 2)])
     = (Some [ListNode [''Future 3-day return / Actual return: 2'']], None)"
proof -
  let ?k1 = "[(''ticker'', Str ''AAPL''), (''sentiment'', Str []), (''pred'', Num 0)]"
  let ?k2 = "[(''ticker'', Str ''AAPL''), (''sentiment'', Str [])]"
  let ?k3 = "[(''actual_return'', Num 2)]"
  let ?v1 = "[(''Sentiment'', Str []), (''Polarity'', Undefined), (''Positive count'', Undefined),
            (''Negative count'', Undefined), (''Label'', Undefined), (''Pred'', Num 0),
            (''Future 3-day return / Actual return'', Undefined)]"
  let ?v2 = "[(''Sentiment'', Str []), (''Polarity'', Undefined), (''Positive count'', Undefined),
            (''Negative count'', Undefined), (''Label'', Undefined), (''Pred'', Undefined),
            (''Future 3-day return / Actual return'', Undefined)]"
  let ?v3 = "[(''Sentiment'', Undefined), (''Polarity'', Undefined), (''Positive count'', Undefined),
            (''Negative count'', Undefined), (''Label'', Undefined), (''Pred'', Undefined),
            (''Future 3-day return / Actual return'', Num 2)]"
  have z: "string_of_int 0 = ''0''" "string_of_int 2 = ''2''"
    by (simp_all add: string_of_int_def string_of_nat.simps digit_char_def)
  have r1: "renderBaselineDetails [''ticker'', ''pred''] (Some []) (Obj ?k1)
              = (Some [TextNode ''No baseline sentiment metrics in this dataset.''], None)"
    using baseline_three_way [of ?v1 ?k1 "[(''Pred'', Num 0)]" False "[''ticker'', ''pred'']" "[]"]
    by (simp add: field_def)
  have r2: "renderBaselineDetails [''ticker'', ''sentiment''] (Some []) (Obj ?k1)
              = (Some [ListNode [''Pred: 0'']], None)"
    using baseline_three_way [of ?v1 ?k1 "[(''Pred'', Num 0)]" True "[''ticker'', ''sentiment'']" "[]"]
    by (simp add: field_def convertible_def the_text_def z)
  have r3: "renderBaselineDetails [''ticker'', ''sentiment''] (Some []) (Obj ?k2)
              = (Some [TextNode ''Baseline columns detected but no values on this row.''], None)"
    using baseline_three_way [of ?v2 ?k2 "[]" True "[''ticker'', ''sentiment'']" "[]"]
    by (simp add: field_def)
  have r4: "renderBaselineDetails [''polarity''] (Some []) (Obj ?k3)
              = (Some [ListNode [''Future 3-day return / Actual return: 2'']], None)"
    using baseline_three_way
      [of ?v3 ?k3 "[(''Future 3-day return / Actual return'', Num 2)]" True "[''polarity'']" "[]"]
    by (simp add: field_def convertible_def the_text_def z)
  from r1 r2 r3 r4 show ?thesis by simp
qed

theorem baseline_actual_return_hidden:
  "renderBaselineDetails [''sentiment''] (Some [])
        (Obj [(''future_3bday_cum_return'', Str []), (''actual_return'', Num 2)])
     = (Some [TextNode ''Baseline columns detected but no values on this row.''], None)
   \<and> renderBaselineDetails [''sentiment''] (Some [])
        (Obj [(''future_3bday_cum_return'', Num 1), (''actual_return'', Num 2)])
     = (Some [ListNode [''Future 3-day return / Actual return: 1'']], None)"
  by code_simp

section \<open>The analysis view\<close>

text \<open>
  The terminal states of the analysis view: a row without the field, or with a false
  one, and a decoded object whose item list and summary are both empty, give the text
  for a row without analysis; a string that \<open>JSON.parse\<close> rejects gives the text for an
  analysis that could not be parsed.
\<close>

lemma analysis_absent:
  assumes "get_prop row ''parsed_and_analyzed_facts'' = Inr raw" and "\<not> truthy raw"
  shows "renderAgentDetails parse (Some old) row = (Some [TextNode no_analysis], None)"
  using assms by (simp add: renderAgentDetails_def)

lemma analysis_parse_error:
  assumes "get_prop row ''parsed_and_analyzed_facts'' = Inr (Str s)" and "s \<noteq> []"
    and "parse s = Inl e"
  shows "renderAgentDetails parse (Some old) row = (Some [TextNode could_not_parse], None)"
  using assms by (simp add: renderAgentDetails_def decode_raw_def)

lemma analysis_empty:
  assumes "get_prop row ''parsed_and_analyzed_facts'' = Inr raw" and "truthy raw"
    and "decode_raw parse raw = Inr (Obj kvs)"
    and "items_of (field kvs ''items'') = []" and "\<not> truthy (field kvs ''summary'')"
  shows "renderAgentDetails parse (Some old) row = (Some [TextNode no_analysis], None)"
  using assms by (simp add: renderAgentDetails_def render_parsed_def field_def js_or_def)

text \<open>
  C3. The analysis view does let an exception through. A row whose analysis field is
  the string \<open>null\<close> decodes to \<open>null\<close>, and the read of \<open>parsed.items\<close>, which stands
  after the \<open>try\<close>, throws a \<open>TypeError\<close>; so does an analysis object whose item list
  holds a \<open>null\<close>, at \<open>item.type\<close>. The exception leaves \<open>renderAgentDetails\<close> with the
  container emptied, and \<open>showRowDetails\<close> before the baseline view is rendered.
\<close>

theorem analysis_decoder_throws:
  "renderAgentDetails parse (Some old)
       (Obj [(''parsed_and_analyzed_facts'', Obj [(''items'', Arr [Null])])])
     = (Some [], Some TypeError)
   \<and> (parse ''null'' = Inr Null \<longrightarrow>
        renderAgentDetails parse (Some old) (Obj [(''parsed_and_analyzed_facts'', Str ''null'')])
          = (Some [], Some TypeError)
        \<and> uncaught (showRowDetails parse (Obj [(''parsed_and_analyzed_facts'', Str ''null'')])
                      (loadPage_done rows_A app_A)) = [TypeError])"
proof -
  have a: "renderAgentDetails parse (Some old)
       (Obj [(''parsed_and_analyzed_facts'', Obj [(''items'', Arr [Null])])])
     = (Some [], Some TypeError)"
    by (simp add: renderAgentDetails_def decode_raw_def render_parsed_def items_of_def js_or_def
        group_step_def)
  have b: "renderAgentDetails parse (Some old) (Obj [(''parsed_and_analyzed_facts'', Str ''null'')])
          = (Some [], Some TypeError)" if "parse ''null'' = Inr Null" for old
    using that by (simp add: renderAgentDetails_def decode_raw_def render_parsed_def)
  have c: "agentDetails (loadPage_done rows_A app_A) = Some []"
    "uncaught (loadPage_done rows_A app_A) = []"
    by code_simp+
  have d: "uncaught (showRowDetails parse (Obj [(''parsed_and_analyzed_facts'', Str ''null'')])
                      (loadPage_done rows_A app_A)) = [TypeError]" if "parse ''null'' = Inr Null"
    using b [OF that] c by (simp add: showRowDetails_def)
  from a b d show ?thesis by blast
qed

theorem analysis_decoder_throws_witness:
  "renderAgentDetails (\<lambda>s. if s = ''null'' then Inr Null else Inl (Error ''Unexpected token''))
       (Some [TextNode no_analysis]) (Obj [(''parsed_and_analyzed_facts'', Str ''null'')])
     = (Some [], Some TypeError)"
  using analysis_decoder_throws
    [of "\<lambda>s. if s = ''null'' then Inr Null else Inl (Error ''Unexpected token'')"
        "[TextNode no_analysis]"]
  by simp

text \<open>
  C4. The sections of the analysis view do not always follow the order in which the
  types are first seen. With the items of type \<open>Risk\<close> and then \<open>2024\<close>, the section
  \<open>2024 (1)\<close> comes first and is the open one: \<open>Object.entries\<close> lists the property names
  that are array indices before the others. An item of type \<open>constructor\<close> finds the
  inherited property of that name in \<open>groups\<close>, and the call of its \<open>push\<close> throws.
\<close>

theorem analysis_groups_out_of_order:
  "render_parsed
     (Obj [(''items'', Arr [Obj [(''type'', Str ''Risk''), (''metric'', Str ''EPS'')],
                            Obj [(''type'', Str ''2024''), (''metric'', Str ''Revenue'')]])])
     = ([Details True ''2024 (1)''
           [\<lparr> fact_metric = ''Revenue'', fact_value = None, fact_reason = None \<rparr>],
         Details False ''Risk (1)''
           [\<lparr> fact_metric = ''EPS'', fact_value = None, fact_reason = None \<rparr>]], None)
   \<and> render_parsed (Obj [(''items'', Arr [Obj [(''type'', Str ''constructor'')]])])
     = ([], Some TypeError)"
proof -
  let ?risk = "Obj [(''type'', Str ''Risk''), (''metric'', Str ''EPS'')]"
  let ?year = "Obj [(''type'', Str ''2024''), (''metric'', Str ''Revenue'')]"
  have g: "group_items [?risk, ?year] [] = Inr [(''Risk'', [?risk]), (''2024'', [?year])]"
    by (simp add: group_step_def js_or_def proto_names_def)
  have i: "is_array_index ''2024''" "\<not> is_array_index ''Risk''"
    by (simp_all add: is_array_index_def is_digit_def int_of_digits_def)
  have e: "entries [(''Risk'', [?risk]), (''2024'', [?year])]
             = [(''2024'', [?year]), (''Risk'', [?risk])]"
    by (simp add: entries_def i)
  have f: "render_facts [?year]
             = Inr [\<lparr> fact_metric = ''Revenue'', fact_value = None, fact_reason = None \<rparr>]"
    "render_facts [?risk]
             = Inr [\<lparr> fact_metric = ''EPS'', fact_value = None, fact_reason = None \<rparr>]"
    by (simp_all add: render_fact_def js_or_def)
  have t: "section_title ''2024'' 1 = ''2024 (1)''" "section_title ''Risk'' 1 = ''Risk (1)''"
    by (simp_all add: section_title_def string_of_nat.simps digit_char_def)
  have r: "render_groups [(''2024'', [?year]), (''Risk'', [?risk])] 0 []
             = ([Details True ''2024 (1)''
                   [\<lparr> fact_metric = ''Revenue'', fact_value = None, fact_reason = None \<rparr>],
                 Details False ''Risk (1)''
                   [\<lparr> fact_metric = ''EPS'', fact_value = None, fact_reason = None \<rparr>]], None)"
    using f t by simp
  have 1: "render_parsed (Obj [(''items'', Arr [?risk, ?year])])
     = ([Details True ''2024 (1)''
           [\<lparr> fact_metric = ''Revenue'', fact_value = None, fact_reason = None \<rparr>],
         Details False ''Risk (1)''
           [\<lparr> fact_metric = ''EPS'', fact_value = None, fact_reason = None \<rparr>]], None)"
    using g e r by (simp add: render_parsed_def items_of_def js_or_def render_summary_def)
  have c: "group_step (Obj [(''type'', Str ''constructor'')]) [] = Inl TypeError"
    by (simp add: group_step_def js_or_def proto_names_def)
  have 2: "render_parsed (Obj [(''items'', Arr [Obj [(''type'', Str ''constructor'')]])])
     = ([], Some TypeError)"
    using c by (simp add: render_parsed_def items_of_def js_or_def)
  from 1 2 show ?thesis by simp
qed

section \<open>Requests that fail\<close>

lemma or_text_simps:
  "or_text (c # cs) fb = c # cs"
  "or_text [] fb = fb"
  "or_text (or_text body (c # cs)) fb = (if body \<noteq> [] then body else c # cs)"
  by (simp_all add: or_text_def)

text \<open>
  C9. What the scripts do with a request that fails, either by a response whose status
  is not from 200 to 299 or by a transport failure. The request for rows and the request
  for the graph show the body of the response in an alert when the body is not empty,
  and otherwise a text with the action and the status. The requests for the list of
  datasets, for the sample calls and for one call always show their own text with the
  status, whatever the body. A failed request for the options is written to the console
  and shows no alert. A transport failure shows the message of the failure, or a fixed
  text when it has none (for the options: goes to the console). In each case nothing else
  of the state and of the page changes.
\<close>

theorem failed_requests:
  "(\<not> ok status \<longrightarrow>
      loadPage_done (Response status body js) a =
        a\<lparr> alerts := alerts a @ [if body \<noteq> [] then body
                                  else ''Request failed: '' @ string_of_int status] \<rparr>
    \<and> loadGraph_done (Response status body jg) a =
        a\<lparr> alerts := alerts a @ [if body \<noteq> [] then body
                                  else ''Graph request failed: '' @ string_of_int status] \<rparr>
    \<and> fetchDatasets_done (Response status body jd) a =
        a\<lparr> alerts := alerts a @ [''Failed to load datasets: '' @ string_of_int status] \<rparr>
    \<and> fetchOptions_done (Response status body jo) a =
        a\<lparr> console := console a @ [Error ''Failed to load options''] \<rparr>
    \<and> loadCalls_done (Response status body jc) c =
        c\<lparr> call_alerts := call_alerts c @ [''Failed: '' @ string_of_int status] \<rparr>
    \<and> loadCall_done (Response status body jv) d =
        d\<lparr> detail_alerts := detail_alerts d @ [''Not found: '' @ string_of_int status] \<rparr>)
   \<and> loadPage_done (Rejected m) a =
        a\<lparr> alerts := alerts a @ [if m \<noteq> [] then m else ''Failed to load data.''] \<rparr>
   \<and> loadGraph_done (Rejected m) a =
        a\<lparr> alerts := alerts a @ [if m \<noteq> [] then m else ''Could not load graph.''] \<rparr>
   \<and> fetchDatasets_done (Rejected m) a =
        a\<lparr> alerts := alerts a @ [if m \<noteq> [] then m else ''Could not load datasets.''] \<rparr>
   \<and> fetchOptions_done (Rejected m) a = a\<lparr> console := console a @ [Error m] \<rparr>
   \<and> loadCalls_done (Rejected m) c =
        c\<lparr> call_alerts := call_alerts c @ [if m \<noteq> [] then m else ''Failed to load calls''] \<rparr>
   \<and> loadCall_done (Rejected m) d =
        d\<lparr> detail_alerts := detail_alerts d @ [if m \<noteq> [] then m else ''Failed to load call''] \<rparr>"
proof -
  have r: "loadPage_done (Rejected m) a =
        a\<lparr> alerts := alerts a @ [if m \<noteq> [] then m else ''Failed to load data.''] \<rparr>"
    "loadGraph_done (Rejected m) a =
        a\<lparr> alerts := alerts a @ [if m \<noteq> [] then m else ''Could not load graph.''] \<rparr>"
    "fetchDatasets_done (Rejected m) a =
        a\<lparr> alerts := alerts a @ [if m \<noteq> [] then m else ''Could not load datasets.''] \<rparr>"
    "fetchOptions_done (Rejected m) a = a\<lparr> console := console a @ [Error m] \<rparr>"
    "loadCalls_done (Rejected m) c =
        c\<lparr> call_alerts := call_alerts c @ [if m \<noteq> [] then m else ''Failed to load calls''] \<rparr>"
    "loadCall_done (Rejected m) d =
        d\<lparr> detail_alerts := detail_alerts d @ [if m \<noteq> [] then m else ''Failed to load call''] \<rparr>"
    by (simp_all add: alert_def call_alert_def detail_alert_def console_error_def or_text_def)
  have f: "loadPage_done (Response status body js) a =
        a\<lparr> alerts := alerts a @ [if body \<noteq> [] then body
                                  else ''Request failed: '' @ string_of_int status] \<rparr>"
    "loadGraph_done (Response status body jg) a =
        a\<lparr> alerts := alerts a @ [if body \<noteq> [] then body
                                  else ''Graph request failed: '' @ string_of_int status] \<rparr>"
    "fetchDatasets_done (Response status body jd) a =
        a\<lparr> alerts := alerts a @ [''Failed to load datasets: '' @ string_of_int status] \<rparr>"
    "fetchOptions_done (Response status body jo) a =
        a\<lparr> console := console a @ [Error ''Failed to load options''] \<rparr>"
    "loadCalls_done (Response status body jc) c =
        c\<lparr> call_alerts := call_alerts c @ [''Failed: '' @ string_of_int status] \<rparr>"
    "loadCall_done (Response status body jv) d =
        d\<lparr> detail_alerts := detail_alerts d @ [''Not found: '' @ string_of_int status] \<rparr>"
    if "\<not> ok status"
    using that
    by (simp_all add: alert_def call_alert_def detail_alert_def console_error_def or_text_simps)
  from r f show ?thesis by blast
qed

theorem failed_requests_witness:
  "\<not> ok 500
   \<and> call_alerts (loadCalls_done (Response 500 ''boom'' (Inl [])) init_callApp) = [''Failed: 500'']
   \<and> alerts (loadPage_done (Response 500 ''boom'' (Inl [])) app_A) = [''boom'']
   \<and> alerts (loadPage_done (Response 500 [] (Inl [])) app_A) = [''Request failed: 500'']"
proof -
  have n: "\<not> ok 500" by (simp add: ok_def)
  have s: "string_of_int 500 = ''500''"
    by (simp add: string_of_int_def string_of_nat.simps digit_char_def)
  have e: "alerts app_A = []" "call_alerts init_callApp = []" by code_simp+
  from failed_requests [of 500 "''boom''" "Inl []" app_A _ _ _ "Inl []" init_callApp] n
  have 1: "call_alerts (loadCalls_done (Response 500 ''boom'' (Inl [])) init_callApp) = [''Failed: 500'']"
    and 2: "alerts (loadPage_done (Response 500 ''boom'' (Inl [])) app_A) = [''boom'']"
    by (simp_all add: s e alert_def call_alert_def or_text_def)
  from failed_requests [of 500 "[]" "Inl []" app_A] n
  have 3: "alerts (loadPage_done (Response 500 [] (Inl [])) app_A) = [''Request failed: 500'']"
    by (simp add: s e alert_def or_text_def)
  from n 1 2 3 show ?thesis by simp
qed

theorem failure_body_ignored:
  "call_alerts (loadCalls_done (Response 500 ''boom'' (Inl [])) init_callApp) = [''Failed: 500'']
   \<and> alerts (fetchOptions_done (Response 500 ''boom'' (Inl [])) app_A) = []
   \<and> console (fetchOptions_done (Response 500 ''boom'' (Inl [])) app_A)
        = [Error ''Failed to load options'']"
  by code_simp


section \<open>How the handlers change the state and the requests\<close>

lemma loadPage_st [simp]: "st (loadPage a) = st a"
  by (simp add: loadPage_def fetch_def)

lemma loadPage_requests:
  "requests (loadPage a) =
     (if no_dataset (st a) then requests a else requests a @ [rows_request (st a)])"
  by (simp add: loadPage_def fetch_def rows_request_def)

lemma fetchOptions_st [simp]: "st (fetchOptions a) = st a"
  by (simp add: fetchOptions_def fetch_def)

lemma fetchOptions_requests:
  "requests (fetchOptions a) =
     (if no_dataset (st a) then requests a
      else requests a @ [Get (''/api/options?dataset='' @
                              encodeURIComponent (dataset_text (dataset (st a))))])"
  by (simp add: fetchOptions_def fetch_def)

lemma render_rows_keeps:
  "st (fst (render_rows cols rows a)) = st a
   \<and> requests (fst (render_rows cols rows a)) = requests a
   \<and> lastColumns (fst (render_rows cols rows a)) = lastColumns a
   \<and> tableHead (fst (render_rows cols rows a)) = tableHead a
   \<and> alerts (fst (render_rows cols rows a)) = alerts a"
  by (induction cols rows a rule: render_rows.induct) (auto split: sum.splits)

lemma renderTable_keeps:
  "st (fst (renderTable cols rows a)) = st a
   \<and> requests (fst (renderTable cols rows a)) = requests a
   \<and> lastColumns (fst (renderTable cols rows a)) = lastColumns a
   \<and> tableHead (fst (renderTable cols rows a)) = cols
   \<and> alerts (fst (renderTable cols rows a)) = alerts a"
  by (simp add: renderTable_def Let_def render_rows_keeps)

lemma render_rows_all:
  "\<forall>row \<in> set rows. renders cols row \<Longrightarrow>
   render_rows cols rows a =
     (a\<lparr> tableBody := tableBody a @ map (\<lambda>row. DataRow (cells_of cols row) row) rows \<rparr>, None)"
proof (induction cols rows a rule: render_rows.induct)
  case (1 cols a)
  then show ?case by simp
next
  case (2 cols row rows a)
  then obtain cells where c: "map_exn (cell_text row) cols = Inr cells"
    by (auto simp: renders_def split: sum.splits)
  with 2 show ?case by (simp add: cells_of_def)
qed

lemma loadPage_done_st:
  "st (loadPage_done r a) =
     (case r of
        Response status body (Inr data) \<Rightarrow>
          if ok status
          then (st a)\<lparr> page := d_page data, pageSize := d_page_size data,
                        total_rows := Some (d_total data) \<rparr>
          else st a
      | _ \<Rightarrow> st a)"
proof (cases r)
  case (Rejected m)
  then show ?thesis by (simp add: alert_def)
next
  case (Response status body js)
  show ?thesis
  proof (cases js)
    case (Inl m)
    with Response show ?thesis by (simp add: alert_def)
  next
    case (Inr data)
    let ?a1 = "a\<lparr> st := (st a)\<lparr> page := d_page data, pageSize := d_page_size data,
                                         total_rows := Some (d_total data) \<rparr>,
                           lastColumns := list_or_empty (d_columns data) \<rparr>"
    obtain a2 e where rt: "renderTable (list_or_empty (d_columns data)) (list_or_empty (d_rows data)) ?a1 = (a2, e)"
      by (cases "renderTable (list_or_empty (d_columns data)) (list_or_empty (d_rows data)) ?a1")
    from renderTable_keeps [of "list_or_empty (d_columns data)" "list_or_empty (d_rows data)" ?a1] rt
    have "st a2 = st ?a1" by simp
    with Response Inr rt show ?thesis
      by (cases e) (simp_all add: alert_def updatePagination_def Let_def)
  qed
qed

lemma loadPage_done_requests: "requests (loadPage_done r a) = requests a"
proof (cases r)
  case (Rejected m)
  then show ?thesis by (simp add: alert_def)
next
  case (Response status body js)
  show ?thesis
  proof (cases js)
    case (Inl m)
    with Response show ?thesis by (simp add: alert_def)
  next
    case (Inr data)
    let ?a1 = "a\<lparr> st := (st a)\<lparr> page := d_page data, pageSize := d_page_size data,
                                         total_rows := Some (d_total data) \<rparr>,
                           lastColumns := list_or_empty (d_columns data) \<rparr>"
    obtain a2 e where rt: "renderTable (list_or_empty (d_columns data)) (list_or_empty (d_rows data)) ?a1 = (a2, e)"
      by (cases "renderTable (list_or_empty (d_columns data)) (list_or_empty (d_rows data)) ?a1")
    from renderTable_keeps [of "list_or_empty (d_columns data)" "list_or_empty (d_rows data)" ?a1] rt
    have "requests a2 = requests ?a1" by simp
    with Response Inr rt show ?thesis
      by (cases e) (simp_all add: alert_def updatePagination_def Let_def)
  qed
qed


































section \<open>The page number\<close>





section \<open>Changing the dataset\<close>

text \<open>
  C6. The handler of a dataset change sets the dataset and the page of the state and
  nothing else: ticker, quarter and search stay as they were applied for the previous
  dataset, and the request for rows that the handler issues at once is built from that
  state, so it carries them to the new dataset. The ticker and the quarter are reset, and
  the option lists replaced, only later and only if the response with the options is a
  success; a failed one leaves the selections and the lists as they are.
\<close>

theorem datasetChange_keeps_filters:
  "st (datasetChange v a) = (st a)\<lparr> dataset := Some v, page := 1 \<rparr>
   \<and> (v \<noteq> [] \<longrightarrow>
        requests (datasetChange v a) =
          requests a @ [Get (''/api/options?dataset='' @ encodeURIComponent v),
                        rows_request ((st a)\<lparr> dataset := Some v, page := 1 \<rparr>)])
   \<and> parse_query (buildQueryString ((st a)\<lparr> dataset := Some v, page := 1 \<rparr>)) =
        [(''dataset'', v), (''page'', string_of_int 1),
         (''page_size'', string_of_int (pageSize (st a)))]
        @ filter_param ''ticker'' (ticker (st a))
        @ filter_param ''quarter'' (quarter (st a))
        @ filter_param ''search'' (search (st a))
   \<and> (\<not> ok status \<longrightarrow>
        st (fetchOptions_done (Response status body js) a) = st a
        \<and> tickerSelect (fetchOptions_done (Response status body js) a) = tickerSelect a
        \<and> quarterSelect (fetchOptions_done (Response status body js) a) = quarterSelect a)
   \<and> (ok status \<longrightarrow>
        st (fetchOptions_done (Response status body (Inr data)) a)
          = (st a)\<lparr> ticker := [], quarter := [] \<rparr>
        \<and> tickerSelect (fetchOptions_done (Response status body (Inr data)) a)
          = renderOptions (list_or_empty (d_tickers data)) ''All tickers''
        \<and> quarterSelect (fetchOptions_done (Response status body (Inr data)) a)
          = renderOptions (list_or_empty (d_quarters data)) ''All quarters'')"
proof -
  have 1: "st (datasetChange v a) = (st a)\<lparr> dataset := Some v, page := 1 \<rparr>"
    by (simp add: datasetChange_def)
  have 2: "requests (datasetChange v a) =
          requests a @ [Get (''/api/options?dataset='' @ encodeURIComponent v),
                        rows_request ((st a)\<lparr> dataset := Some v, page := 1 \<rparr>)]"
    if "v \<noteq> []"
    using that
    by (simp add: datasetChange_def loadPage_requests fetchOptions_requests no_dataset_def
        dataset_text_def)
  have 3: "parse_query (buildQueryString ((st a)\<lparr> dataset := Some v, page := 1 \<rparr>)) =
        [(''dataset'', v), (''page'', string_of_int 1),
         (''page_size'', string_of_int (pageSize (st a)))]
        @ filter_param ''ticker'' (ticker (st a))
        @ filter_param ''quarter'' (quarter (st a))
        @ filter_param ''search'' (search (st a))"
    unfolding buildQueryString_def parse_serialize
    by (simp add: query_params_def append_if_eq dataset_text_def)
  have 4: "st (fetchOptions_done (Response status body js) a) = st a
        \<and> tickerSelect (fetchOptions_done (Response status body js) a) = tickerSelect a
        \<and> quarterSelect (fetchOptions_done (Response status body js) a) = quarterSelect a"
    if "\<not> ok status"
    using that by (simp add: console_error_def)
  have 5: "st (fetchOptions_done (Response status body (Inr data)) a)
          = (st a)\<lparr> ticker := [], quarter := [] \<rparr>
        \<and> tickerSelect (fetchOptions_done (Response status body (Inr data)) a)
          = renderOptions (list_or_empty (d_tickers data)) ''All tickers''
        \<and> quarterSelect (fetchOptions_done (Response status body (Inr data)) a)
          = renderOptions (list_or_empty (d_quarters data)) ''All quarters''"
    if "ok status"
    using that by simp
  from 1 2 3 4 5 show ?thesis by blast
qed

theorem datasetChange_keeps_filters_witness:
  "requests (datasetChange ''B''
      (applyFilters (chooseTicker ''AAPL''
         (fetchOptions_done options_A (loadPage_done rows_A app_A)))))
     = [Get ''/api/datasets'', Get ''/api/options?dataset=A'',
        Get ''/api/rows?dataset=A&page=1&page_size=25'',
        Get ''/api/rows?dataset=A&page=1&page_size=25&ticker=AAPL'',
        Get ''/api/options?dataset=B'',
        Get ''/api/rows?dataset=B&page=1&page_size=25&ticker=AAPL'']
   \<and> ticker (st (datasetChange ''B''
      (applyFilters (chooseTicker ''AAPL''
         (fetchOptions_done options_A (loadPage_done rows_A app_A)))))) = ''AAPL''"
proof -
  let ?a = "applyFilters (chooseTicker ''AAPL''
         (fetchOptions_done options_A (loadPage_done rows_A app_A)))"
  have n: "''B'' \<noteq> []" by simp
  from datasetChange_keeps_filters [of "''B''" ?a] n
  have r: "requests (datasetChange ''B'' ?a) =
          requests ?a @ [Get (''/api/options?dataset='' @ encodeURIComponent ''B''),
                        rows_request ((st ?a)\<lparr> dataset := Some ''B'', page := 1 \<rparr>)]"
    and s: "st (datasetChange ''B'' ?a) = (st ?a)\<lparr> dataset := Some ''B'', page := 1 \<rparr>"
    by blast+
  have e: "requests ?a @ [Get (''/api/options?dataset='' @ encodeURIComponent ''B''),
                        rows_request ((st ?a)\<lparr> dataset := Some ''B'', page := 1 \<rparr>)]
     = [Get ''/api/datasets'', Get ''/api/options?dataset=A'',
        Get ''/api/rows?dataset=A&page=1&page_size=25'',
        Get ''/api/rows?dataset=A&page=1&page_size=25&ticker=AAPL'',
        Get ''/api/options?dataset=B'',
        Get ''/api/rows?dataset=B&page=1&page_size=25&ticker=AAPL'']"
    by code_simp
  have t: "ticker ((st ?a)\<lparr> dataset := Some ''B'', page := 1 \<rparr>) = ''AAPL''"
    by code_simp
  from r s e t show ?thesis by simp
qed

section \<open>A response that arrives late\<close>

text \<open>
  C7. A response with a page of rows is applied when it arrives, whatever dataset is
  selected then, so also when it answers a request issued for a dataset selected before:
  the script keeps no record of what a request was issued for. A successful response
  replaces the column list, the table header and the page number, page size and total
  of the state by its own, and, when all its rows render, the table body by its rows and
  the page text by its own; it leaves the selected dataset and the ticker, quarter and
  search of the state as they are, and issues no request.
\<close>

theorem rows_response_applied:
  assumes "ok status"
  shows "st (loadPage_done (Response status body (Inr data)) a)
           = (st a)\<lparr> page := d_page data, pageSize := d_page_size data,
                      total_rows := Some (d_total data) \<rparr>
       \<and> lastColumns (loadPage_done (Response status body (Inr data)) a)
           = list_or_empty (d_columns data)
       \<and> tableHead (loadPage_done (Response status body (Inr data)) a)
           = list_or_empty (d_columns data)
       \<and> requests (loadPage_done (Response status body (Inr data)) a) = requests a
       \<and> ((\<forall>row \<in> set (list_or_empty (d_rows data)). renders (list_or_empty (d_columns data)) row)
            \<longrightarrow>
            tableBody (loadPage_done (Response status body (Inr data)) a)
              = (if list_or_empty (d_rows data) = []
                 then [EmptyRow (if length (list_or_empty (d_columns data)) = 0 then 1
                                 else length (list_or_empty (d_columns data))) ''No rows found.'']
                 else map (\<lambda>row. DataRow (cells_of (list_or_empty (d_columns data)) row) row)
                        (list_or_empty (d_rows data)))
            \<and> pageInfo (loadPage_done (Response status body (Inr data)) a)
              = page_info_text (d_page data)
                  (computeTotalPages (d_total data) (d_page_size data)) (d_total data)
            \<and> alerts (loadPage_done (Response status body (Inr data)) a) = alerts a)"
proof -
  let ?cols = "list_or_empty (d_columns data)" and ?rows = "list_or_empty (d_rows data)"
  let ?r = "Response status body (Inr data)"
  let ?a1 = "a\<lparr> st := (st a)\<lparr> page := d_page data, pageSize := d_page_size data,
                                 total_rows := Some (d_total data) \<rparr>,
                 lastColumns := ?cols \<rparr>"
  obtain a2 e where rt: "renderTable ?cols ?rows ?a1 = (a2, e)"
    by (cases "renderTable ?cols ?rows ?a1")
  from renderTable_keeps [of ?cols ?rows ?a1] rt
  have k: "lastColumns a2 = ?cols" "tableHead a2 = ?cols"
    by simp_all
  have 1: "st (loadPage_done ?r a)
           = (st a)\<lparr> page := d_page data, pageSize := d_page_size data,
                      total_rows := Some (d_total data) \<rparr>"
    unfolding loadPage_done_st using assms by simp
  have 2: "lastColumns (loadPage_done ?r a) = ?cols" "tableHead (loadPage_done ?r a) = ?cols"
    using assms rt k by (cases e; simp add: alert_def updatePagination_def Let_def)+
  have 3: "requests (loadPage_done ?r a) = requests a"
    by (rule loadPage_done_requests)
  have 4: "tableBody (loadPage_done ?r a)
              = (if ?rows = []
                 then [EmptyRow (if length ?cols = 0 then 1 else length ?cols) ''No rows found.'']
                 else map (\<lambda>row. DataRow (cells_of ?cols row) row) ?rows)
            \<and> pageInfo (loadPage_done ?r a)
              = page_info_text (d_page data)
                  (computeTotalPages (d_total data) (d_page_size data)) (d_total data)
            \<and> alerts (loadPage_done ?r a) = alerts a"
    if h: "\<forall>row \<in> set ?rows. renders ?cols row"
  proof (cases "?rows = []")
    case True
    with assms show ?thesis
      by (simp add: renderTable_def Let_def updatePagination_def)
  next
    case False
    with assms render_rows_all [OF h] show ?thesis
      by (simp add: renderTable_def Let_def updatePagination_def)
  qed
  from 1 2 3 4 show ?thesis by blast
qed

theorem rows_response_applied_witness:
  "ok 200
   \<and> dataset (st (loadPage_done rows_A (loadPage_done rows_B (datasetChange ''B'' app_A))))
       = Some ''B''
   \<and> lastColumns (loadPage_done rows_A (loadPage_done rows_B (datasetChange ''B'' app_A)))
       = [''ticker'', ''sentiment'']"
proof -
  let ?b = "loadPage_done rows_B (datasetChange ''B'' app_A)"
  let ?d = "\<lparr> d_columns = Some [''ticker'', ''sentiment''],
            d_rows = Some [Obj [(''ticker'', Str ''AAPL''), (''sentiment'', Num 1)]],
            d_page = 1, d_page_size = 25, d_total = 1 \<rparr>"
  have o: "ok 200" by (simp add: ok_def)
  have d: "dataset (st ?b) = Some ''B''" by code_simp
  from rows_response_applied [OF o, of "[]" ?d ?b]
  have "st (loadPage_done rows_A ?b) = (st ?b)\<lparr> page := 1, pageSize := 25, total_rows := Some 1 \<rparr>"
    and "lastColumns (loadPage_done rows_A ?b) = [''ticker'', ''sentiment'']"
    unfolding rows_A_def by (simp_all add: list_or_empty_def)
  with o d show ?thesis by simp
qed

theorem stale_rows_overwrite:
  "dataset (st (loadPage_done rows_B (datasetChange ''B'' app_A))) = Some ''B''
   \<and> tableHead (loadPage_done rows_B (datasetChange ''B'' app_A)) = [''name'']
   \<and> tableBody (loadPage_done rows_B (datasetChange ''B'' app_A))
       = [DataRow [''x''] (Obj [(''name'', Str ''x'')]), DataRow [''y''] (Obj [(''name'', Str ''y'')])]
   \<and> total_rows (st (loadPage_done rows_B (datasetChange ''B'' app_A))) = Some 60
   \<and> dataset (st (loadPage_done rows_A (loadPage_done rows_B (datasetChange ''B'' app_A))))
       = Some ''B''
   \<and> tableHead (loadPage_done rows_A (loadPage_done rows_B (datasetChange ''B'' app_A)))
       = [''ticker'', ''sentiment'']
   \<and> tableBody (loadPage_done rows_A (loadPage_done rows_B (datasetChange ''B'' app_A)))
       = [DataRow [''AAPL'', ''1''] (Obj [(''ticker'', Str ''AAPL''), (''sentiment'', Num 1)])]
   \<and> lastColumns (loadPage_done rows_A (loadPage_done rows_B (datasetChange ''B'' app_A)))
       = [''ticker'', ''sentiment'']
   \<and> total_rows (st (loadPage_done rows_A (loadPage_done rows_B (datasetChange ''B'' app_A))))
       = Some 1"
  by code_simp

section \<open>The groups of the analysis view\<close>

lemma first_seen_snoc:
  "first_seen (ks @ [k]) = (if k \<in> set ks then first_seen ks else first_seen ks @ [k])"
  by (simp add: first_seen_def)

lemma first_seen_set: "set (first_seen ks) = set ks"
  by (simp add: first_seen_def)

lemma first_seen_distinct: "distinct (first_seen ks)"
  by (simp add: first_seen_def)

lemma push_item_absent:
  "k \<notin> set ks \<Longrightarrow> push_item k item (map (\<lambda>k'. (k', f k')) ks) = map (\<lambda>k'. (k', f k')) ks"
  by (induction ks) auto

lemma push_item_map:
  "distinct ks \<Longrightarrow>
   push_item k item (map (\<lambda>k'. (k', f k')) ks)
     = map (\<lambda>k'. (k', if k' = k then f k' @ [item] else f k')) ks"
proof (induction ks)
  case Nil
  then show ?case by simp
next
  case (Cons a ks)
  show ?case
  proof (cases "a = k")
    case True
    with Cons.prems have "k \<notin> set ks" by simp
    then have "map (\<lambda>k'. (k', if k' = k then f k' @ [item] else f k')) ks
               = map (\<lambda>k'. (k', f k')) ks"
      by (intro map_cong) auto
    with True show ?thesis by simp
  next
    case False
    with Cons show ?thesis by simp
  qed
qed

lemma grouped_keys: "fst ` set (grouped items) = set (map type_key items)"
  by (simp add: grouped_def image_image first_seen_set)

lemma group_step_groupable:
  assumes "groupable item"
  shows "group_step item (grouped seen) = Inr (grouped (seen @ [item]))"
proof -
  let ?k = "type_key item"
  from assms have nn: "\<not> nullish item"
    and cv: "convertible (js_or (opt_prop item ''type'') (Str ''Other''))"
    and np: "?k \<notin> set proto_names"
    by (simp_all add: groupable_def)
  from nn have gp: "get_prop item ''type'' = Inr (opt_prop item ''type'')"
    by (cases item) (simp_all add: opt_prop_def nullish_def)
  from cv have ts: "ToString (js_or (opt_prop item ''type'') (Str ''Other'')) = Inr ?k"
    by (simp add: convertible_def type_key_def the_text_def split: sum.splits)
  show ?thesis
  proof (cases "?k \<in> set (map type_key seen)")
    case True
    have "push_item ?k item (grouped seen) = grouped (seen @ [item])"
      unfolding grouped_def
      using True
      by (subst push_item_map [OF first_seen_distinct]) (auto simp: first_seen_snoc)
    with True gp ts show ?thesis
      by (simp add: group_step_def grouped_keys)
  next
    case False
    then have e: "filter (\<lambda>i. type_key i = ?k) seen = []"
      by (auto simp: filter_empty_conv image_iff)
    have "grouped seen @ [(?k, [item])] = grouped (seen @ [item])"
      unfolding grouped_def
      using False e by (auto simp: first_seen_snoc first_seen_set)
    with False gp ts np show ?thesis
      by (simp add: group_step_def grouped_keys)
  qed
qed

lemma group_items_groupable:
  "\<forall>item \<in> set items. groupable item \<Longrightarrow>
   group_items items (grouped seen) = Inr (grouped (seen @ items))"
proof (induction items arbitrary: seen)
  case Nil
  then show ?case by simp
next
  case (Cons item items)
  then have "group_items items (grouped (seen @ [item])) = Inr (grouped ((seen @ [item]) @ items))"
    by simp
  with Cons.prems show ?case by (simp add: group_step_groupable)
qed

lemma entries_plain:
  "\<forall>(k, l) \<in> set g. \<not> is_array_index k \<Longrightarrow> entries g = g"
proof -
  assume a: "\<forall>(k, l) \<in> set g. \<not> is_array_index k"
  then have "filter (\<lambda>(k, l). is_array_index k) g = []"
    by (auto simp: filter_empty_conv)
  moreover from a have "filter (\<lambda>(k, l). \<not> is_array_index k) g = g"
    by (auto simp: filter_id_conv)
  ultimately show ?thesis by (simp add: entries_def)
qed

lemma entries_grouped:
  "\<forall>item \<in> set items. groupable item \<Longrightarrow> entries (grouped items) = grouped items"
  by (rule entries_plain) (auto simp: grouped_def first_seen_set groupable_def)

lemma render_groups_all:
  "\<forall>(k, l) \<in> set g. \<exists>fs. render_facts l = Inr fs \<Longrightarrow>
   render_groups g i c =
     (c @ map (\<lambda>(j, (k, l)). Details (j = 0) (section_title k (length l)) (facts_of l))
            (enumerate i g), None)"
proof (induction g i c rule: render_groups.induct)
  case (1 idx c)
  then show ?case by simp
next
  case (2 ty l es idx c)
  from "2.prems" obtain fs where fs: "render_facts l = Inr fs" by auto
  with 2 show ?case by (simp add: facts_of_def)
qed

text \<open>
  The analysis view for a decoded object whose items can all be grouped and rendered:
  one section for each type in first-seen order, with the items of the type in their
  original order and the title \<open>type (count)\<close>, the first section open and the others
  closed, and then the summary, once, if there is one. This does not cover a type whose
  name is an array index or a name that objects inherit.
\<close>

lemma analysis_sections:
  assumes "items_of (field kvs ''items'') = items"
    and "\<forall>item \<in> set items. groupable item"
    and "\<forall>item \<in> set items. \<exists>f. render_fact item = Inr f"
    and "items \<noteq> [] \<or> truthy (field kvs ''summary'')"
    and "convertible (field kvs ''summary'')"
  shows "render_parsed (Obj kvs) =
           (sections_of (grouped items)
            @ (if truthy (field kvs ''summary'')
               then [SummaryBlock (the_text (field kvs ''summary''))] else []), None)"
proof -
  have g: "group_items items [] = Inr (grouped items)"
    using group_items_groupable [OF assms(2), of "[]"] by (simp add: grouped_def first_seen_def)
  have rf: "\<exists>fs. render_facts l = Inr fs" if "\<forall>item \<in> set l. \<exists>f. render_fact item = Inr f" for l
    using that by (induction l) auto
  have "\<forall>(k, l) \<in> set (grouped items). \<exists>fs. render_facts l = Inr fs"
    using assms(3) by (auto simp: grouped_def intro!: rf)
  then have r: "render_groups (grouped items) 0 [] = (sections_of (grouped items), None)"
    by (simp add: render_groups_all sections_of_def)
  from assms(5) have s: "ToString (field kvs ''summary'') = Inr (the_text (field kvs ''summary''))"
    by (simp add: convertible_def the_text_def split: sum.splits)
  have f: "(case map_of kvs ''items'' of None \<Rightarrow> Undefined | Some v \<Rightarrow> v) = field kvs ''items''"
    "(case map_of kvs ''summary'' of None \<Rightarrow> Undefined | Some v \<Rightarrow> v) = field kvs ''summary''"
    by (simp_all add: field_def)
  show ?thesis
    using assms(1,4) g r s entries_grouped [OF assms(2)]
    by (auto simp: render_parsed_def f js_or_def render_summary_def Let_def)
qed

text \<open>
  The analysis \<open>{"items": [{"type": "Risk", "metric": "EPS", "value": "-0.10", "reason":
  "miss"}], "summary": "ok"}\<close>, given as an object: one section \<open>Risk (1)\<close>, open, with
  the metric \<open>EPS\<close>, the value \<open>-0.10\<close> and the reason \<open>miss\<close>, and then the summary \<open>ok\<close>.
\<close>

lemma analysis_example:
  "renderAgentDetails parse (Some old)
     (Obj [(''parsed_and_analyzed_facts'',
            Obj [(''items'', Arr [Obj [(''type'', Str ''Risk''), (''metric'', Str ''EPS''),
                                       (''value'', Str ''-0.10''), (''reason'', Str ''miss'')]]),
                 (''summary'', Str ''ok'')])])
   = (Some [Details True ''Risk (1)''
              [\<lparr> fact_metric = ''EPS'', fact_value = Some ''-0.10'',
                  fact_reason = Some ''miss'' \<rparr>],
            SummaryBlock ''ok''], None)"
proof -
  let ?item = "Obj [(''type'', Str ''Risk''), (''metric'', Str ''EPS''),
                    (''value'', Str ''-0.10''), (''reason'', Str ''miss'')]"
  have "render_parsed (Obj [(''items'', Arr [?item]), (''summary'', Str ''ok'')])
     = ([Details True ''Risk (1)''
              [\<lparr> fact_metric = ''EPS'', fact_value = Some ''-0.10'',
                  fact_reason = Some ''miss'' \<rparr>],
            SummaryBlock ''ok''], None)"
    by code_simp
  then show ?thesis
    by (simp add: renderAgentDetails_def decode_raw_def)
qed

end
